theory Spec2Isabelle
  imports Complex_Main "HOL-Library.Sublist"
begin

section \<open>JavaScript values used by the client\<close>

text \<open>
  Strings are byte lists. \<open>a || b\<close> on a possibly absent string picks \<open>a\<close> when it is
  present and non-empty (truthy) and \<open>b\<close> otherwise; \<open>s.includes(t)\<close> is substring
  containment.
\<close>

fun truthy :: "string option \<Rightarrow> bool" where
  "truthy None = False"
| "truthy (Some s) = (s \<noteq> [])"

fun or_else :: "string option \<Rightarrow> string \<Rightarrow> string" where
  "or_else None d = d"
| "or_else (Some s) d = (if s = [] then d else s)"

fun js_includes :: "string \<Rightarrow> string \<Rightarrow> bool" where
  "js_includes [] t = (t = [])"
| "js_includes (c # cs) t = (prefix t (c # cs) \<or> js_includes cs t)"

text \<open>
  A template literal prints an absent value as the text \<open>undefined\<close>.
\<close>

fun interpolate :: "string option \<Rightarrow> string" where
  "interpolate None = ''undefined''"
| "interpolate (Some s) = s"

text \<open>
  A number as the code meets one: \<open>NaN\<close>, an integral value, or an infinity. The
  product with a literal is taken exactly.
\<close>

datatype js_number = NaN | Num int | PosInfinity | NegInfinity

fun js_times :: "js_number \<Rightarrow> int \<Rightarrow> js_number" where
  "js_times NaN k = NaN"
| "js_times (Num n) k = Num (n * k)"
| "js_times PosInfinity k = (if k = 0 then NaN else if 0 < k then PosInfinity else NegInfinity)"
| "js_times NegInfinity k = (if k = 0 then NaN else if 0 < k then NegInfinity else PosInfinity)"

section \<open>Error classifier (openai-client.ts, handleError)\<close>

text \<open>
  The value caught by an operation's \<open>catch\<close>: \<open>error.message\<close>, \<open>error.status\<close> and
  \<open>error.code\<close> may each be absent; \<open>err_printed\<close> is what \<open>String(error)\<close> gives, used
  by the last template when the message is absent or empty.
\<close>

record js_error =
  err_message :: "string option"
  err_status :: "int option"
  err_code :: "string option"
  err_printed :: string

text \<open>\<open>new Error('Request timeout')\<close>, the rejection of \<open>timeoutPromise\<close>.\<close>

definition timeout_error :: js_error where
  "timeout_error =
     \<lparr>err_message = Some ''Request timeout'', err_status = None, err_code = None,
      err_printed = ''Error: Request timeout''\<rparr>"

text \<open>\<open>error.message?.includes(t)\<close>: false when the message is absent.\<close>

fun message_includes :: "js_error \<Rightarrow> string \<Rightarrow> bool" where
  "message_includes e t = (case err_message e of None \<Rightarrow> False | Some m \<Rightarrow> js_includes m t)"

text \<open>
  \<open>handleError\<close> returns a new \<open>Error\<close>; the model returns that error's message.
\<close>

definition handleError :: "js_error \<Rightarrow> string" where
  "handleError error =
     (if err_message error = Some ''Request timeout'' then
        ''OpenAI API request timed out. Please try again.''
      else if err_status error = Some 401 \<or> err_status error = Some 403 then
        ''Invalid OpenAI API key. Please check your OPENAI_API_KEY environment variable.''
      else if err_status error = Some 429 then
        ''OpenAI API rate limit exceeded. Please wait a moment and try again.''
      else if err_status error = Some 400 \<and> message_includes error ''safety'' then
        ''Content blocked by OpenAI's safety filters. Try rephrasing your request.''
      else if err_code error = Some ''ENOTFOUND'' \<or> err_code error = Some ''ECONNREFUSED''
              \<or> message_includes error ''fetch'' then
        ''Failed to connect to OpenAI API: '' @ interpolate (err_message error)
      else
        ''OpenAI API error: '' @ or_else (err_message error) (err_printed error))"

subsection \<open>The six categories of the specification\<close>

datatype ErrorCategory =
  Timeout | AuthInvalid | RateLimited | ContentPolicyBlocked | NetworkUnreachable | Unknown

text \<open>
  The specification's first-match table, written from its six numbered cases, and the
  one fixed template of each category.
\<close>

definition is_timeout_sentinel :: "js_error \<Rightarrow> bool" where
  "is_timeout_sentinel e = (err_message e = Some ''Request timeout'')"

definition has_status :: "js_error \<Rightarrow> int \<Rightarrow> bool" where
  "has_status e n = (err_status e = Some n)"

definition connection_code :: "js_error \<Rightarrow> bool" where
  "connection_code e = (err_code e \<in> {Some ''ENOTFOUND'', Some ''ECONNREFUSED''})"

definition classify :: "js_error \<Rightarrow> ErrorCategory" where
  "classify e =
     (if is_timeout_sentinel e then Timeout
      else if has_status e 401 \<or> has_status e 403 then AuthInvalid
      else if has_status e 429 then RateLimited
      else if has_status e 400 \<and> message_includes e ''safety'' then ContentPolicyBlocked
      else if connection_code e \<or> message_includes e ''fetch'' then NetworkUnreachable
      else Unknown)"

fun category_message :: "ErrorCategory \<Rightarrow> js_error \<Rightarrow> string" where
  "category_message Timeout e = ''OpenAI API request timed out. Please try again.''"
| "category_message AuthInvalid e =
     ''Invalid OpenAI API key. Please check your OPENAI_API_KEY environment variable.''"
| "category_message RateLimited e =
     ''OpenAI API rate limit exceeded. Please wait a moment and try again.''"
| "category_message ContentPolicyBlocked e =
     ''Content blocked by OpenAI's safety filters. Try rephrasing your request.''"
| "category_message NetworkUnreachable e =
     ''Failed to connect to OpenAI API: '' @ interpolate (err_message e)"
| "category_message Unknown e =
     ''OpenAI API error: '' @ or_else (err_message e) (err_printed e)"

section \<open>Upstream responses and the extractors (openai-client.ts)\<close>

text \<open>
  The response of \<open>responses.create\<close> is read by attribute probing, so each record keeps
  the attributes the extractors look at; an attribute the code tests for presence is an
  option.
\<close>

record annotation =
  ann_type :: string
  ann_title :: "string option"
  ann_url :: "string option"

record content_part =
  part_type :: string
  part_text :: string
  part_annotations :: "annotation list option"

record summary_part =
  summary_type :: string
  summary_text :: string

record code_result =
  result_type :: string
  result_logs :: string

record output_item =
  item_type :: string
  item_content :: "content_part list option"
  item_summary :: "summary_part list option"
  item_code :: "string option"
  item_results :: "code_result list option"

record response =
  resp_output :: "output_item list option"

record citation =
  title :: string
  url :: string

record SearchWebResponse =
  sw_text :: string
  sw_citations :: "citation list"

record ReasoningResponse =
  rr_text :: string
  rr_reasoning :: string

record CodeExecutionResponse =
  ce_text :: string
  ce_code :: string
  ce_output :: string

text \<open>
  The content parts an extractor walks for one output item: those of a message item
  that has a content attribute.
\<close>

definition message_parts :: "output_item \<Rightarrow> content_part list" where
  "message_parts item =
     (if item_type item = ''message'' then
        (case item_content item of None \<Rightarrow> [] | Some parts \<Rightarrow> parts)
      else [])"

definition item_texts :: "output_item \<Rightarrow> string list" where
  "item_texts item =
     map part_text (filter (\<lambda>part. part_type part = ''output_text'') (message_parts item))"

definition extractText :: "response \<Rightarrow> string" where
  "extractText r =
     (case resp_output r of
        None \<Rightarrow> []
      | Some items \<Rightarrow>
          (let textParts = concat (map item_texts items)
           in if length textParts > 0 then concat textParts else []))"

text \<open>
  The citations one content part pushes, in order: one for each \<open>url_citation\<close>
  annotation of an \<open>output_text\<close> part that has annotations.
\<close>

definition citation_of :: "annotation \<Rightarrow> citation" where
  "citation_of ann =
     \<lparr>title = or_else (ann_title ann) ''Untitled'', url = or_else (ann_url ann) []\<rparr>"

definition part_citations :: "content_part \<Rightarrow> citation list" where
  "part_citations part =
     (if part_type part = ''output_text'' then
        (case part_annotations part of
           None \<Rightarrow> []
         | Some anns \<Rightarrow> map citation_of (filter (\<lambda>ann. ann_type ann = ''url_citation'') anns))
      else [])"

definition harvest :: "response \<Rightarrow> citation list" where
  "harvest r =
     (case resp_output r of
        None \<Rightarrow> []
      | Some items \<Rightarrow> concat (map (\<lambda>item. concat (map part_citations (message_parts item))) items))"

text \<open>
  \<open>citations.filter(c => ...)\<close> with the set \<open>seen\<close> that the callback grows.
\<close>

fun dedup :: "string set \<Rightarrow> citation list \<Rightarrow> citation list" where
  "dedup seen [] = []"
| "dedup seen (c # cs) =
     (if url c \<in> seen then dedup seen cs else c # dedup (insert (url c) seen) cs)"

definition extractSearchResponse :: "response \<Rightarrow> SearchWebResponse" where
  "extractSearchResponse r =
     (let text = extractText r;
          citations = harvest r;
          uniqueCitations = dedup {} citations
      in \<lparr>sw_text = text, sw_citations = uniqueCitations\<rparr>)"

definition extractUrlFetchResponse :: "response \<Rightarrow> SearchWebResponse" where
  "extractUrlFetchResponse r =
     (let searchResp = extractSearchResponse r
      in \<lparr>sw_text = sw_text searchResp, sw_citations = sw_citations searchResp\<rparr>)"

definition item_reasoning :: "output_item \<Rightarrow> string" where
  "item_reasoning item =
     (if item_type item = ''reasoning'' then
        (case item_summary item of
           None \<Rightarrow> []
         | Some ss \<Rightarrow> concat (map summary_text (filter (\<lambda>s. summary_type s = ''summary_text'') ss)))
      else [])"

text \<open>
  One pass over the output; reasoning items feed \<open>reasoning\<close>, message items feed
  \<open>text\<close>, and the two accumulators do not interact.
\<close>

definition extractReasoningResponse :: "response \<Rightarrow> ReasoningResponse" where
  "extractReasoningResponse r =
     (case resp_output r of
        None \<Rightarrow> \<lparr>rr_text = [], rr_reasoning = []\<rparr>
      | Some items \<Rightarrow>
          \<lparr>rr_text = concat (concat (map item_texts items)),
           rr_reasoning = concat (map item_reasoning items)\<rparr>)"

text \<open>\<open>acc += (acc ? '\n' : '') + s\<close>\<close>

definition join_line :: "string \<Rightarrow> string \<Rightarrow> string" where
  "join_line acc s = acc @ (if acc \<noteq> [] then [CHR 0x0A] else []) @ s"

fun logs_loop :: "string \<Rightarrow> code_result list \<Rightarrow> string" where
  "logs_loop out [] = out"
| "logs_loop out (result # rest) =
     logs_loop (if result_type result = ''logs'' then join_line out (result_logs result) else out)
       rest"

fun code_loop ::
  "string \<times> string \<times> string \<Rightarrow> output_item list \<Rightarrow> string \<times> string \<times> string" where
  "code_loop acc [] = acc"
| "code_loop (text, code, out) (item # rest) =
     (let (code', out') =
            (if item_type item = ''code_interpreter_call'' then
               ((case item_code item of
                   None \<Rightarrow> code
                 | Some c \<Rightarrow> if c \<noteq> [] then join_line code c else code),
                (case item_results item of None \<Rightarrow> out | Some rs \<Rightarrow> logs_loop out rs))
             else (code, out));
          text' = text @ concat (item_texts item)
      in code_loop (text', code', out') rest)"

definition extractCodeExecutionResponse :: "response \<Rightarrow> CodeExecutionResponse" where
  "extractCodeExecutionResponse r =
     (case resp_output r of
        None \<Rightarrow> \<lparr>ce_text = [], ce_code = [], ce_output = []\<rparr>
      | Some items \<Rightarrow>
          (case code_loop ([], [], []) items of
             (text, code, out) \<Rightarrow> \<lparr>ce_text = text, ce_code = code, ce_output = out\<rparr>))"

section \<open>The race against the deadline\<close>

text \<open>
  An upstream call settles after \<open>latency\<close> milliseconds with \<open>outcome\<close>: a rejection
  (\<open>Inl\<close>) or a response. \<open>Promise.race([call, timeoutPromise(ms)])\<close> settles with
  whichever settles first; the timer rejects with \<open>timeout_error\<close> when it fires. A call
  that settles in the very millisecond in which the timer fires wins the race.

  \<open>setTimeout(f, ms)\<close> of Node fires after \<open>ms\<close> milliseconds when \<open>ms\<close> is a number
  from 1 to 2147483647, and after 1 millisecond for every other \<open>ms\<close> (a smaller or a
  larger number, \<open>NaN\<close>, an infinity).
\<close>

fun timer_delay :: "js_number \<Rightarrow> nat" where
  "timer_delay (Num n) = (if 1 \<le> n \<and> n \<le> 2147483647 then nat n else 1)"
| "timer_delay NaN = 1"
| "timer_delay PosInfinity = 1"
| "timer_delay NegInfinity = 1"

record 'a call =
  latency :: nat
  outcome :: "js_error + 'a"

definition race :: "'a call \<Rightarrow> js_number \<Rightarrow> js_error + 'a" where
  "race c ms = (if latency c \<le> timer_delay ms then outcome c else Inl timeout_error)"

text \<open>
  \<open>try { return extract(await race) } catch (error) { throw handleError(error) }\<close>:
  the frame of every operation around its raced call.
\<close>

definition settle :: "js_error + 'a \<Rightarrow> ('a \<Rightarrow> 'b) \<Rightarrow> string + 'b" where
  "settle raced extract =
     (case raced of Inl error \<Rightarrow> Inl (handleError error) | Inr r \<Rightarrow> Inr (extract r))"

section \<open>The client and its collaborators\<close>

text \<open>
  Requests as the operations build them. The content of an input block is a plain
  string or a list of typed parts.
\<close>

datatype input_part = Input_file string | Input_text string | Input_image string string

datatype input_content = Text string | Parts "input_part list"

record input_message =
  role :: string
  content :: input_content

datatype tool = Web_search_preview | Code_interpreter_auto

record responses_params =
  rp_model :: string
  rp_input :: "input_message list"
  rp_tools :: "tool list option"
  rp_reasoning_effort :: "string option"

record file_object =
  file_id :: string

record js_file =
  file_bytes :: string
  file_name :: string
  file_mime :: string

record images_generate_params =
  ig_model :: string
  ig_prompt :: string
  ig_size :: string
  ig_quality :: string
  ig_n :: nat
  ig_output_format :: string

record images_edit_params =
  ie_model :: string
  ie_prompt :: string
  ie_image :: js_file
  ie_mask :: "js_file option"
  ie_size :: string
  ie_quality :: string
  ie_output_format :: string

record image_datum =
  b64_json :: "string option"
  revised_prompt :: "string option"

record images_response =
  img_data :: "image_datum list option"

record speech_params =
  sp_model :: string
  sp_voice :: string
  sp_input :: string
  sp_speed :: rat
  sp_response_format :: string

record transcription_params =
  tp_model :: string
  tp_file :: string
  tp_language :: "string option"
  tp_prompt :: "string option"

record transcription =
  transcription_text :: string

text \<open>
  The client object: its \<open>timeout\<close> field (the number the configuration holds,
  milliseconds) and the provider's endpoints
  behind \<open>this.client\<close>, each giving the call that a request starts. \<open>files_create\<close>
  takes the path of the stream it is given.
\<close>

record OpenAIClient =
  timeout :: js_number
  responses_create :: "responses_params \<Rightarrow> response call"
  files_create :: "string \<Rightarrow> file_object call"
  images_generate :: "images_generate_params \<Rightarrow> images_response call"
  images_edit :: "images_edit_params \<Rightarrow> images_response call"
  speech_create :: "speech_params \<Rightarrow> string call"
  transcriptions_create :: "transcription_params \<Rightarrow> transcription call"

text \<open>
  The platform as far as the code calls it, taken as given: Node's \<open>path\<close> module,
  \<open>String.prototype.toLowerCase\<close>, reading a file, what the operating system answers
  to \<open>mkdirSync(dir, {recursive: true})\<close> and to \<open>writeFileSync(path, data)\<close> (an error
  that is thrown, or nothing), and the clock: \<open>date_iso k\<close> is what the \<open>k\<close>-th
  \<open>new Date().toISOString()\<close> of an invocation returns.
\<close>

record node =
  path_resolve :: "string list \<Rightarrow> string"
  path_basename :: "string \<Rightarrow> string"
  path_extname :: "string \<Rightarrow> string"
  path_dirname :: "string \<Rightarrow> string"
  toLowerCase :: "string \<Rightarrow> string"
  readFileSync :: "string \<Rightarrow> js_error + string"
  mkdir_error :: "string \<Rightarrow> js_error option"
  write_error :: "string \<Rightarrow> js_error option"
  date_iso :: "nat \<Rightarrow> string"

record ImageGenerationResponse_image =
  b64 :: string
  revisedPrompt :: "string option"

record ImageGenerationResponse =
  images :: "ImageGenerationResponse_image list"

record FileUploadResponse =
  fu_text :: string
  fu_fileName :: string
  fu_fileId :: string

subsection \<open>String helpers\<close>

fun join :: "string \<Rightarrow> string list \<Rightarrow> string" where
  "join sep [] = []"
| "join sep [x] = x"
| "join sep (x # y # ys) = x @ sep @ join sep (y # ys)"

definition nl :: string where
  "nl = [CHR 0x0A]"

definition quote :: string where
  "quote = [CHR 0x27]"

subsection \<open>Text operations\<close>

text \<open>\<open>if (systemPrompt) input.push({ role: 'developer', content: systemPrompt })\<close>\<close>

fun developer_block :: "string option \<Rightarrow> input_message list" where
  "developer_block None = []"
| "developer_block (Some s) = (if s = [] then [] else [\<lparr>role = ''developer'', content = Text s\<rparr>])"

definition user_block :: "string \<Rightarrow> input_message" where
  "user_block s = \<lparr>role = ''user'', content = Text s\<rparr>"

definition generate :: "OpenAIClient \<Rightarrow> string \<Rightarrow> string \<Rightarrow> string option \<Rightarrow> string + string" where
  "generate this model prompt systemPrompt =
     (let input = developer_block systemPrompt @ [user_block prompt]
      in settle
           (race (responses_create this
                    \<lparr>rp_model = model, rp_input = input, rp_tools = None,
                     rp_reasoning_effort = None\<rparr>)
              (timeout this))
           extractText)"

definition searchWeb ::
  "OpenAIClient \<Rightarrow> string \<Rightarrow> string \<Rightarrow> string option \<Rightarrow> string + SearchWebResponse" where
  "searchWeb this model query systemPrompt =
     (let input = developer_block systemPrompt @ [user_block query]
      in settle
           (race (responses_create this
                    \<lparr>rp_model = model, rp_input = input, rp_tools = Some [Web_search_preview],
                     rp_reasoning_effort = None\<rparr>)
              (js_times (timeout this) 3))
           extractSearchResponse)"

definition generateWithReasoning ::
  "OpenAIClient \<Rightarrow> string \<Rightarrow> string \<Rightarrow> string option \<Rightarrow> string + ReasoningResponse" where
  "generateWithReasoning this model prompt effort =
     settle
       (race (responses_create this
                \<lparr>rp_model = model, rp_input = [user_block prompt], rp_tools = None,
                 rp_reasoning_effort = Some (or_else effort ''high'')\<rparr>)
          (js_times (timeout this) 5))
       extractReasoningResponse"

definition executeCode ::
  "OpenAIClient \<Rightarrow> string \<Rightarrow> string \<Rightarrow> string option \<Rightarrow> string + CodeExecutionResponse" where
  "executeCode this model prompt systemPrompt =
     (let input = developer_block systemPrompt @ [user_block prompt]
      in settle
           (race (responses_create this
                    \<lparr>rp_model = model, rp_input = input, rp_tools = Some [Code_interpreter_auto],
                     rp_reasoning_effort = None\<rparr>)
              (js_times (timeout this) 3))
           extractCodeExecutionResponse)"

definition fetchUrl ::
  "OpenAIClient \<Rightarrow> string \<Rightarrow> string \<Rightarrow> string list \<Rightarrow> string option
     \<Rightarrow> string + SearchWebResponse" where
  "fetchUrl this model prompt urls systemPrompt =
     (let fullPrompt =
            prompt @ nl @ nl @ ''URLs to analyze:'' @ nl @ join nl (map (\<lambda>u. ''- '' @ u) urls);
          input = developer_block systemPrompt @ [user_block fullPrompt]
      in settle
           (race (responses_create this
                    \<lparr>rp_model = model, rp_input = input, rp_tools = Some [Web_search_preview],
                     rp_reasoning_effort = None\<rparr>)
              (js_times (timeout this) 3))
           extractUrlFetchResponse)"

subsection \<open>File upload\<close>

definition UPLOAD_SUPPORTED_EXTENSIONS :: "string list" where
  "UPLOAD_SUPPORTED_EXTENSIONS =
     [''.c'', ''.css'', ''.csv'', ''.diff'', ''.html'', ''.htm'', ''.java'', ''.js'', ''.json'',
      ''.md'', ''.markdown'', ''.pdf'', ''.php'', ''.pl'', ''.pm'', ''.py'', ''.rb'', ''.rst'',
      ''.scala'', ''.sh'', ''.tex'', ''.txt'', ''.text'', ''.xml'', ''.yaml'', ''.yml'',
      ''.srt'', ''.vtt'', ''.eml'', ''.mjs'', ''.patch'']"

text \<open>
  \<open>files.create\<close> is awaited without a race; only the follow-up question is raced.
\<close>

definition uploadViaFilesApi ::
  "OpenAIClient \<Rightarrow> string \<Rightarrow> string \<Rightarrow> string \<Rightarrow> string option
     \<Rightarrow> js_error + FileUploadResponse" where
  "uploadViaFilesApi this model absolutePath fileName query =
     (case outcome (files_create this absolutePath) of
        Inl error \<Rightarrow> Inl error
      | Inr file \<Rightarrow>
          (if \<not> truthy query then
             Inr \<lparr>fu_text =
                    ''File '' @ quote @ fileName @ quote @ '' uploaded successfully.'' @ nl
                    @ ''File ID: '' @ file_id file @ nl @ nl
                    @ ''Use this file_id with the '' @ quote @ ''ask'' @ quote @ '' tool''
                    @ quote @ ''s file_ids parameter to ask questions about it.'',
                  fu_fileName = fileName, fu_fileId = file_id file\<rparr>
           else
             (let input =
                    [\<lparr>role = ''user'',
                      content = Parts [Input_file (file_id file), Input_text (or_else query [])]\<rparr>]
              in case race (responses_create this
                              \<lparr>rp_model = model, rp_input = input, rp_tools = None,
                               rp_reasoning_effort = None\<rparr>)
                        (js_times (timeout this) 3) of
                   Inl error \<Rightarrow> Inl error
                 | Inr response \<Rightarrow>
                     Inr \<lparr>fu_text = extractText response, fu_fileName = fileName,
                          fu_fileId = file_id file\<rparr>)))"

text \<open>
  \<open>path.extname(absolutePath).toLowerCase().slice(1) || 'text'\<close> is the tag of the fence.
\<close>

definition fence_tag :: "node \<Rightarrow> string \<Rightarrow> string" where
  "fence_tag nd extname = or_else (Some (drop 1 (toLowerCase nd extname))) ''text''"

definition inline_prompt :: "string \<Rightarrow> string \<Rightarrow> string \<Rightarrow> string \<Rightarrow> string" where
  "inline_prompt fileName ext fileContent promptText =
     ''File: '' @ fileName @ nl @ nl @ ''```'' @ ext @ nl @ fileContent @ nl @ ''```'' @ nl @ nl
     @ promptText"

definition uploadViaInlineText ::
  "node \<Rightarrow> OpenAIClient \<Rightarrow> string \<Rightarrow> string \<Rightarrow> string \<Rightarrow> string option
     \<Rightarrow> js_error + FileUploadResponse" where
  "uploadViaInlineText nd this model absolutePath fileName query =
     (case readFileSync nd absolutePath of
        Inl error \<Rightarrow> Inl error
      | Inr fileContent \<Rightarrow>
          (let ext = fence_tag nd (path_extname nd absolutePath);
               promptText = or_else query ''Analyze this file and provide a detailed summary.'';
               fullPrompt = inline_prompt fileName ext fileContent promptText
           in case race (responses_create this
                           \<lparr>rp_model = model, rp_input = [user_block fullPrompt], rp_tools = None,
                            rp_reasoning_effort = None\<rparr>)
                     (js_times (timeout this) 3) of
                Inl error \<Rightarrow> Inl error
              | Inr response \<Rightarrow>
                  Inr \<lparr>fu_text = extractText response, fu_fileName = fileName,
                       fu_fileId = ''inline''\<rparr>))"

text \<open>
  \<open>uploadFile\<close> returns the promise of the helper it chooses without awaiting it, so a
  rejection of that promise (a failed read, a failed upload, the timeout of the raced
  question) does not pass through the \<open>catch\<close> of \<open>uploadFile\<close>: it reaches the caller
  as the error it is, not as the error \<open>handleError\<close> would make of it.
\<close>

definition uploadFile ::
  "node \<Rightarrow> OpenAIClient \<Rightarrow> string \<Rightarrow> string \<Rightarrow> string option
     \<Rightarrow> js_error + FileUploadResponse" where
  "uploadFile nd this model filePath query =
     (let absolutePath = path_resolve nd [filePath];
          fileName = path_basename nd absolutePath;
          ext = toLowerCase nd (path_extname nd absolutePath)
      in if ext \<in> set UPLOAD_SUPPORTED_EXTENSIONS then
           uploadViaFilesApi this model absolutePath fileName query
         else uploadViaInlineText nd this model absolutePath fileName query)"

subsection \<open>Images and audio\<close>

text \<open>\<open>if (img.b64_json) images.push({...})\<close>: what one data item adds to the result.\<close>

definition push_image :: "image_datum \<Rightarrow> ImageGenerationResponse_image list" where
  "push_image img =
     (case b64_json img of
        None \<Rightarrow> []
      | Some payload \<Rightarrow>
          (if payload = [] then []
           else [\<lparr>b64 = payload, revisedPrompt = revised_prompt img\<rparr>]))"

definition collect_images :: "images_response \<Rightarrow> ImageGenerationResponse" where
  "collect_images response =
     \<lparr>images = (case img_data response of None \<Rightarrow> [] | Some ds \<Rightarrow> concat (map push_image ds))\<rparr>"

text \<open>\<open>options?.n || 1\<close>\<close>

fun n_or_1 :: "nat option \<Rightarrow> nat" where
  "n_or_1 None = 1"
| "n_or_1 (Some n) = (if n = 0 then 1 else n)"

definition generateImage ::
  "OpenAIClient \<Rightarrow> string \<Rightarrow> string option \<Rightarrow> string option \<Rightarrow> nat option
     \<Rightarrow> string + ImageGenerationResponse" where
  "generateImage this prompt sz quality n =
     settle
       (race (images_generate this
                \<lparr>ig_model = ''gpt-image-1.5'', ig_prompt = prompt,
                 ig_size = or_else sz ''auto'', ig_quality = or_else quality ''auto'',
                 ig_n = n_or_1 n, ig_output_format = ''png''\<rparr>)
          (js_times (timeout this) 3))
       collect_images"

definition getImageMimeType :: "node \<Rightarrow> string \<Rightarrow> string" where
  "getImageMimeType nd filePath =
     (let ext = toLowerCase nd (path_extname nd filePath)
      in or_else
           (map_of
              [(''.png'', ''image/png''), (''.jpg'', ''image/jpeg''), (''.jpeg'', ''image/jpeg''),
               (''.webp'', ''image/webp''), (''.gif'', ''image/gif''), (''.bmp'', ''image/bmp'')]
              ext)
           ''image/png'')"

text \<open>
  Reading a file into a \<open>File\<close>: \<open>readFileSync\<close> may throw, which the operation's
  \<open>catch\<close> sees.
\<close>

definition load_file :: "node \<Rightarrow> string \<Rightarrow> js_error + js_file" where
  "load_file nd p =
     (let resolved = path_resolve nd [p]
      in case readFileSync nd resolved of
           Inl error \<Rightarrow> Inl error
         | Inr buffer \<Rightarrow>
             Inr \<lparr>file_bytes = buffer, file_name = path_basename nd resolved,
                  file_mime = getImageMimeType nd resolved\<rparr>)"

definition editImage ::
  "node \<Rightarrow> OpenAIClient \<Rightarrow> string \<Rightarrow> string \<Rightarrow> string option \<Rightarrow> string option
     \<Rightarrow> string option \<Rightarrow> string + ImageGenerationResponse" where
  "editImage nd this prompt imagePath maskPath sz quality =
     settle
       (case load_file nd imagePath of
          Inl error \<Rightarrow> Inl error
        | Inr imageFile \<Rightarrow>
            (case (if truthy maskPath then
                     (case load_file nd (or_else maskPath []) of
                        Inl error \<Rightarrow> Inl error
                      | Inr loaded \<Rightarrow> Inr (Some loaded))
                   else Inr None) of
               Inl error \<Rightarrow> Inl error
             | Inr maskFile \<Rightarrow>
                 race (images_edit this
                         \<lparr>ie_model = ''gpt-image-1.5'', ie_prompt = prompt, ie_image = imageFile,
                          ie_mask = maskFile, ie_size = or_else sz ''auto'',
                          ie_quality = or_else quality ''auto'', ie_output_format = ''png''\<rparr>)
                   (js_times (timeout this) 3)))
       collect_images"

definition analyzeImage ::
  "OpenAIClient \<Rightarrow> string \<Rightarrow> string \<Rightarrow> string \<Rightarrow> string \<Rightarrow> string + string" where
  "analyzeImage this model prompt imageBase64 mimeType =
     (let dataUrl = ''data:'' @ mimeType @ '';base64,'' @ imageBase64;
          input = [\<lparr>role = ''user'',
                    content = Parts [Input_image dataUrl ''auto'', Input_text prompt]\<rparr>]
      in settle
           (race (responses_create this
                    \<lparr>rp_model = model, rp_input = input, rp_tools = None,
                     rp_reasoning_effort = None\<rparr>)
              (js_times (timeout this) 2))
           extractText)"

text \<open>\<open>options?.speed || 1.0\<close>\<close>

fun speed_or_1 :: "rat option \<Rightarrow> rat" where
  "speed_or_1 None = 1"
| "speed_or_1 (Some v) = (if v = 0 then 1 else v)"

definition textToSpeech ::
  "OpenAIClient \<Rightarrow> string \<Rightarrow> string option \<Rightarrow> string option \<Rightarrow> rat option \<Rightarrow> string option
     \<Rightarrow> string + string" where
  "textToSpeech this text model voice speed format =
     settle
       (race (speech_create this
                \<lparr>sp_model = or_else model ''gpt-4o-mini-tts'', sp_voice = or_else voice ''alloy'',
                 sp_input = text, sp_speed = speed_or_1 speed,
                 sp_response_format = or_else format ''mp3''\<rparr>)
          (js_times (timeout this) 2))
       (\<lambda>audio. audio)"

definition transcribe ::
  "node \<Rightarrow> OpenAIClient \<Rightarrow> string \<Rightarrow> string option \<Rightarrow> string option \<Rightarrow> string option
     \<Rightarrow> string + string" where
  "transcribe nd this audioPath model language prompt =
     settle
       (race (transcriptions_create this
                \<lparr>tp_model = or_else model ''whisper-1'', tp_file = path_resolve nd [audioPath],
                 tp_language = language, tp_prompt = prompt\<rparr>)
          (js_times (timeout this) 3))
       transcription_text"

section \<open>Configuration (config.ts)\<close>

text \<open>
  \<open>parseInt(s, 10)\<close>: leading white space is skipped (the white space and line
  terminator characters of JavaScript, here in their UTF-8 encoding), one sign is read,
  then the longest run of decimal digits; no digit gives \<open>NaN\<close>. The result is the
  double nearest to the integer that the digits denote (ties to even), an infinity
  beyond the range of the doubles.
\<close>

definition white_space :: "string list" where
  "white_space =
     [[CHR 0x09], [CHR 0x0A], [CHR 0x0B], [CHR 0x0C], [CHR 0x0D], [CHR 0x20],
      [CHR 0xC2, CHR 0xA0], [CHR 0xE1, CHR 0x9A, CHR 0x80],
      [CHR 0xE2, CHR 0x80, CHR 0x80], [CHR 0xE2, CHR 0x80, CHR 0x81],
      [CHR 0xE2, CHR 0x80, CHR 0x82], [CHR 0xE2, CHR 0x80, CHR 0x83],
      [CHR 0xE2, CHR 0x80, CHR 0x84], [CHR 0xE2, CHR 0x80, CHR 0x85],
      [CHR 0xE2, CHR 0x80, CHR 0x86], [CHR 0xE2, CHR 0x80, CHR 0x87],
      [CHR 0xE2, CHR 0x80, CHR 0x88], [CHR 0xE2, CHR 0x80, CHR 0x89],
      [CHR 0xE2, CHR 0x80, CHR 0x8A], [CHR 0xE2, CHR 0x80, CHR 0xA8],
      [CHR 0xE2, CHR 0x80, CHR 0xA9], [CHR 0xE2, CHR 0x80, CHR 0xAF],
      [CHR 0xE2, CHR 0x81, CHR 0x9F], [CHR 0xE3, CHR 0x80, CHR 0x80],
      [CHR 0xEF, CHR 0xBB, CHR 0xBF]]"

fun leading_white_space :: "string list \<Rightarrow> string \<Rightarrow> nat" where
  "leading_white_space [] s = 0"
| "leading_white_space (w # ws) s =
     (if w \<noteq> [] \<and> prefix w s then length w else leading_white_space ws s)"

function skip_white_space :: "string \<Rightarrow> string" where
  "skip_white_space s =
     (if leading_white_space white_space s = 0 then s
      else skip_white_space (drop (leading_white_space white_space s) s))"
  by pat_completeness auto
termination
proof (relation "measure length")
  show "wf (measure length)" by simp
next
  fix s :: string
  assume "leading_white_space white_space s \<noteq> 0"
  moreover have "leading_white_space ws s \<le> length s" for ws
    by (induction ws) (auto dest: prefix_length_le)
  ultimately show "(drop (leading_white_space white_space s) s, s) \<in> measure length"
    by (cases s) auto
qed

declare skip_white_space.simps [simp del]

definition digit_value :: "char \<Rightarrow> int option" where
  "digit_value c = map_of (zip ''0123456789'' [0, 1, 2, 3, 4, 5, 6, 7, 8, 9]) c"

definition is_digit :: "char \<Rightarrow> bool" where
  "is_digit c = (digit_value c \<noteq> None)"

definition digits_value :: "string \<Rightarrow> int" where
  "digits_value ds = foldl (\<lambda>acc c. 10 * acc + (case digit_value c of None \<Rightarrow> 0 | Some d \<Rightarrow> d)) 0 ds"

function bit_length :: "nat \<Rightarrow> nat" where
  "bit_length n = (if n = 0 then 0 else Suc (bit_length (n div 2)))"
  by pat_completeness auto
termination
  by (relation "measure (\<lambda>n. n)") auto

declare bit_length.simps [simp del]

text \<open>
  The double nearest to a natural number, \<open>None\<close> when that is beyond the largest
  double: 53 bits are kept, the rest is rounded to nearest, ties to even.
\<close>

definition round_double :: "nat \<Rightarrow> nat option" where
  "round_double n =
     (if n < 2 ^ 53 then Some n
      else
        (let e = bit_length n - 53;
             q = n div 2 ^ e;
             r = n mod 2 ^ e;
             half = 2 ^ (e - 1);
             q' = (if half < r \<or> (r = half \<and> odd q) then q + 1 else q);
             v = q' * 2 ^ e
         in if 2 ^ 1024 \<le> v then None else Some v))"

definition parseInt :: "string \<Rightarrow> js_number" where
  "parseInt s =
     (let t = skip_white_space s;
          (negative, u) =
            (case t of
               [] \<Rightarrow> (False, [])
             | c # cs \<Rightarrow>
                 if c = CHR ''-'' then (True, cs) else if c = CHR ''+'' then (False, cs)
                 else (False, t));
          ds = takeWhile is_digit u
      in if ds = [] then NaN
         else
           (case round_double (nat (digits_value ds)) of
              None \<Rightarrow> (if negative then NegInfinity else PosInfinity)
            | Some v \<Rightarrow> Num (if negative then - int v else int v)))"

text \<open>\<open>timeout <= 0\<close>: every comparison with \<open>NaN\<close> is false.\<close>

fun le_zero :: "js_number \<Rightarrow> bool" where
  "le_zero NaN = False"
| "le_zero (Num n) = (n \<le> 0)"
| "le_zero PosInfinity = False"
| "le_zero NegInfinity = True"

fun positive_integer :: "js_number \<Rightarrow> bool" where
  "positive_integer NaN = False"
| "positive_integer (Num n) = (0 < n)"
| "positive_integer PosInfinity = False"
| "positive_integer NegInfinity = False"

record process_env =
  OPENAI_API_KEY :: "string option"
  OPENAI_DEFAULT_MODEL :: "string option"
  OPENAI_OUTPUT_DIR :: "string option"
  OPENAI_TIMEOUT :: "string option"

record Config =
  apiKey :: string
  defaultModel :: string
  cfg_timeout :: js_number
  outputDir :: string

definition loadConfig :: "process_env \<Rightarrow> string + Config" where
  "loadConfig env =
     (if \<not> truthy (OPENAI_API_KEY env) then
        Inl (''OpenAI API key not configured. ''
             @ ''Please set the OPENAI_API_KEY environment variable.'')
      else
        (let defaultModel = or_else (OPENAI_DEFAULT_MODEL env) ''gpt-4.1'';
             outputDir = or_else (OPENAI_OUTPUT_DIR env) ''./generated-media'';
             timeoutStr = OPENAI_TIMEOUT env;
             timeout = (if truthy timeoutStr then parseInt (or_else timeoutStr []) else Num 60000)
         in if le_zero timeout then Inl ''OPENAI_TIMEOUT must be a positive number''
            else Inr \<lparr>apiKey = or_else (OPENAI_API_KEY env) [], defaultModel = defaultModel,
                      cfg_timeout = timeout, outputDir = outputDir\<rparr>))"

text \<open>
  \<open>main\<close> loads the configuration before it creates the server; a throw there ends in
  \<open>process.exit(1)\<close>, so no tool is ever registered.
\<close>

datatype startup = Exit int | Serving Config

definition main_startup :: "process_env \<Rightarrow> startup" where
  "main_startup env = (case loadConfig env of Inl msg \<Rightarrow> Exit 1 | Inr config \<Rightarrow> Serving config)"

section \<open>Tool handlers (index.ts)\<close>

datatype reply_part = Text_part string | Image_part string string

record ToolReply =
  reply_content :: "reply_part list"
  isError :: bool

text \<open>
  The input record of a tool is the value \<open>schema.parse(args)\<close> returned. A reply
  without an \<open>isError\<close> key is a success; the model writes \<open>False\<close> for it. The
  handler's outer \<open>catch\<close> turns a thrown error into an error reply whose text is
  \<open>error.message || 'An error occurred'\<close>.
\<close>

definition success :: "reply_part list \<Rightarrow> ToolReply" where
  "success parts = \<lparr>reply_content = parts, isError = False\<rparr>"

definition failure :: "string \<Rightarrow> ToolReply" where
  "failure msg = \<lparr>reply_content = [Text_part msg], isError = True\<rparr>"

definition caught :: "string option \<Rightarrow> ToolReply" where
  "caught message = failure (or_else message ''An error occurred'')"

text \<open>
  The disk as the handlers touch it: which paths exist, what each file holds (the data
  is the base64 text whose decoding is written), the \<open>writeFileSync\<close> calls that
  succeeded so far, in order, and how many times the clock was read.
\<close>

record disk =
  present :: "string \<Rightarrow> bool"
  contents :: "string \<Rightarrow> string option"
  writes :: "(string \<times> string) list"
  dates_read :: nat

text \<open>
  \<open>saveFile\<close> creates the directory when it does not exist, then writes; either step
  may throw, and what was done before the throw stays done.
\<close>

definition saveFile :: "node \<Rightarrow> disk \<Rightarrow> string \<Rightarrow> string \<Rightarrow> (js_error + string) \<times> disk" where
  "saveFile nd st data savePath =
     (let dir = path_dirname nd savePath
      in case (if \<not> present st dir then mkdir_error nd dir else None) of
           Some error \<Rightarrow> (Inl error, st)
         | None \<Rightarrow>
             (let st1 = (if \<not> present st dir then st\<lparr>present := (present st)(dir := True)\<rparr>
                         else st)
              in case write_error nd savePath of
                   Some error \<Rightarrow> (Inl error, st1)
                 | None \<Rightarrow>
                     (Inr savePath,
                      st1\<lparr>present := (present st1)(savePath := True),
                          contents := (contents st1)(savePath := Some data),
                          writes := writes st1 @ [(savePath, data)]\<rparr>)))"

definition saveImage :: "node \<Rightarrow> disk \<Rightarrow> string \<Rightarrow> string \<Rightarrow> (js_error + string) \<times> disk" where
  "saveImage nd st base64Data savePath = saveFile nd st base64Data savePath"

definition getAutoSavePath :: "node \<Rightarrow> disk \<Rightarrow> string \<Rightarrow> string \<Rightarrow> string \<Rightarrow> string \<times> disk" where
  "getAutoSavePath nd st outDir pfx ext =
     (let timestamp =
            map (\<lambda>c. if c = CHR '':'' \<or> c = CHR ''.'' then CHR ''-'' else c)
              (date_iso nd (dates_read st));
          filename = pfx @ ''-'' @ timestamp @ ''.'' @ ext
      in (path_resolve nd [outDir, filename], st\<lparr>dates_read := dates_read st + 1\<rparr>))"

subsection \<open>Decimal text of an index\<close>

definition digit_char :: "nat \<Rightarrow> char" where
  "digit_char d = ''0123456789'' ! d"

function string_of_nat :: "nat \<Rightarrow> string" where
  "string_of_nat n =
     (if n < 10 then [digit_char n] else string_of_nat (n div 10) @ [digit_char (n mod 10)])"
  by pat_completeness auto
termination
  by (relation "measure (\<lambda>n. n)") auto

declare string_of_nat.simps [simp del]

subsection \<open>ask\<close>

record ask_input =
  ask_prompt :: string
  ask_model :: "string option"
  ask_file_ids :: "string list option"

definition ask_tool :: "Config \<Rightarrow> OpenAIClient \<Rightarrow> ask_input \<Rightarrow> ToolReply" where
  "ask_tool config client inp =
     (let model = or_else (ask_model inp) (defaultModel config)
      in case generate client model (ask_prompt inp) None of
           Inl message \<Rightarrow> caught (Some message)
         | Inr response \<Rightarrow> success [Text_part response])"

subsection \<open>generate\_image\<close>

record generate_image_input =
  gi_prompt :: string
  gi_size :: "string option"
  gi_quality :: "string option"
  gi_n :: "nat option"
  gi_save_path :: "string option"

text \<open>
  \<open>s.slice(0, -k)\<close> for \<open>k = ext.length\<close>: a negative end counts from the end of the
  string, and \<open>-0\<close> is \<open>0\<close>, the empty slice.
\<close>

definition slice_0_neg :: "string \<Rightarrow> nat \<Rightarrow> string" where
  "slice_0_neg s k = (if k = 0 then [] else take (length s - k) s)"

definition image_text :: "string \<Rightarrow> string \<Rightarrow> ImageGenerationResponse_image \<Rightarrow> string" where
  "image_text label savedTo img =
     concat ([label @ savedTo]
             @ (if truthy (revisedPrompt img) then
                  [nl @ ''Revised prompt: '' @ or_else (revisedPrompt img) []]
                else []))"

definition choose_save_path ::
  "node \<Rightarrow> Config \<Rightarrow> disk \<Rightarrow> string option \<Rightarrow> nat \<Rightarrow> nat \<Rightarrow> string \<times> disk" where
  "choose_save_path nd config st save_path count i =
     (if truthy save_path \<and> count = 1 then (or_else save_path [], st)
      else if truthy save_path then
        (let ext = path_extname nd (or_else save_path []);
             base = slice_0_neg (or_else save_path []) (length ext)
         in (base @ ''_'' @ string_of_nat i @ ext, st))
      else getAutoSavePath nd st (outputDir config) ''generated'' ''png'')"

text \<open>
  The \<open>for\<close> loop over \<open>result.images\<close>: \<open>i\<close> is the index of the head of the
  remaining images, \<open>count\<close> is \<open>result.images.length\<close>. A throw of \<open>saveImage\<close> ends
  the loop.
\<close>

fun save_loop ::
  "node \<Rightarrow> Config \<Rightarrow> string option \<Rightarrow> nat \<Rightarrow> nat \<Rightarrow> ImageGenerationResponse_image list
     \<Rightarrow> reply_part list \<times> disk \<Rightarrow> (js_error + reply_part list) \<times> disk" where
  "save_loop nd config save_path count i [] (parts, st) = (Inr parts, st)"
| "save_loop nd config save_path count i (img # rest) (parts, st) =
     (let (savePath, st1) = choose_save_path nd config st save_path count i
      in case saveImage nd st1 (b64 img) savePath of
           (Inl error, st2) \<Rightarrow> (Inl error, st2)
         | (Inr savedTo, st2) \<Rightarrow>
             (let shown =
                    image_text (''Image '' @ string_of_nat (i + 1) @ '' saved to: '') savedTo img
              in save_loop nd config save_path count (i + 1) rest
                   (parts @ [Image_part (b64 img) ''image/png'', Text_part shown], st2)))"

definition no_image_message :: string where
  "no_image_message =
     ''No image was generated. The model may have declined the request or encountered ''
     @ ''a safety filter. Try rephrasing your prompt.''"

definition generate_image_tool ::
  "node \<Rightarrow> Config \<Rightarrow> OpenAIClient \<Rightarrow> disk \<Rightarrow> generate_image_input \<Rightarrow> ToolReply \<times> disk" where
  "generate_image_tool nd config client st inp =
     (case generateImage client (gi_prompt inp) (gi_size inp) (gi_quality inp) (gi_n inp) of
        Inl message \<Rightarrow> (caught (Some message), st)
      | Inr result \<Rightarrow>
          (if length (images result) = 0 then (failure no_image_message, st)
           else
             (case save_loop nd config (gi_save_path inp) (length (images result)) 0
                     (images result) ([], st) of
                (Inl error, st') \<Rightarrow> (caught (err_message error), st')
              | (Inr parts, st') \<Rightarrow> (success parts, st'))))"

subsection \<open>edit\_image\<close>

record edit_image_input =
  ei_prompt :: string
  ei_image_path :: string
  ei_mask_path :: "string option"
  ei_size :: "string option"
  ei_quality :: "string option"
  ei_save_path :: "string option"

definition no_edited_image_message :: string where
  "no_edited_image_message =
     ''No edited image was generated. The model may have declined the request or ''
     @ ''encountered a safety filter. Try rephrasing your prompt.''"

definition edit_image_tool ::
  "node \<Rightarrow> Config \<Rightarrow> OpenAIClient \<Rightarrow> disk \<Rightarrow> edit_image_input \<Rightarrow> ToolReply \<times> disk" where
  "edit_image_tool nd config client st inp =
     (let imagePath = path_resolve nd [ei_image_path inp]
      in if \<not> present st imagePath then
           (failure (''Source image not found: '' @ imagePath), st)
         else if truthy (ei_mask_path inp)
                 \<and> \<not> present st (path_resolve nd [or_else (ei_mask_path inp) []]) then
           (failure (''Mask image not found: ''
                     @ path_resolve nd [or_else (ei_mask_path inp) []]), st)
         else
           (case editImage nd client (ei_prompt inp) imagePath (ei_mask_path inp) (ei_size inp)
                   (ei_quality inp) of
              Inl message \<Rightarrow> (caught (Some message), st)
            | Inr result \<Rightarrow>
                (case images result of
                   [] \<Rightarrow> (failure no_edited_image_message, st)
                 | img # others \<Rightarrow>
                     (let (savePath, st1) =
                            (if truthy (ei_save_path inp) then (or_else (ei_save_path inp) [], st)
                             else getAutoSavePath nd st (outputDir config) ''edited'' ''png'')
                      in case saveImage nd st1 (b64 img) savePath of
                           (Inl error, st2) \<Rightarrow> (caught (err_message error), st2)
                         | (Inr savedTo, st2) \<Rightarrow>
                             (success
                                [Image_part (b64 img) ''image/png'',
                                 Text_part (image_text ''Edited image saved to: '' savedTo img)],
                              st2)))))"

section \<open>A POSIX platform\<close>

text \<open>
  \<open>path.extname\<close> of Node on POSIX, transcribed from its loop: the path is scanned from
  its end; \<open>startDot\<close> is the index of the last dot of the last path component,
  \<open>endp\<close> the end of that component, and \<open>preDotState\<close> tells whether a character
  other than a dot comes before that dot. Indices are integers, \<open>-1\<close> for "not seen".
\<close>

record extname_state =
  startDot :: int
  startPart :: int
  endp :: int
  matchedSlash :: bool
  preDotState :: int

fun extname_scan :: "string \<Rightarrow> nat \<Rightarrow> extname_state \<Rightarrow> extname_state" where
  "extname_scan path 0 s = s"
| "extname_scan path (Suc i) s =
     (let code = path ! i
      in if code = CHR ''/'' then
           (if \<not> matchedSlash s then s\<lparr>startPart := int i + 1\<rparr>
            else extname_scan path i s)
         else
           (let s1 = (if endp s = - 1 then s\<lparr>matchedSlash := False, endp := int i + 1\<rparr> else s);
                s2 = (if code = CHR ''.'' then
                        (if startDot s1 = - 1 then s1\<lparr>startDot := int i\<rparr>
                         else if preDotState s1 \<noteq> 1 then s1\<lparr>preDotState := 1\<rparr>
                         else s1)
                      else if startDot s1 \<noteq> - 1 then s1\<lparr>preDotState := - 1\<rparr>
                      else s1)
            in extname_scan path i s2))"

definition posix_extname :: "string \<Rightarrow> string" where
  "posix_extname path =
     (let s = extname_scan path (length path)
                \<lparr>startDot = - 1, startPart = 0, endp = - 1, matchedSlash = True,
                 preDotState = 0\<rparr>
      in if startDot s = - 1 \<or> endp s = - 1 \<or> preDotState s = 0
            \<or> (preDotState s = 1 \<and> startDot s = endp s - 1 \<and> startDot s = startPart s + 1)
         then []
         else take (nat (endp s - startDot s)) (drop (nat (startDot s)) path))"

text \<open>
  The other \<open>path\<close> functions, for normalised paths without a trailing slash, where
  they are plain string operations: the last component, what precedes it, and the
  resolution of segments against the working directory.
\<close>

definition last_component :: "string \<Rightarrow> string" where
  "last_component p = rev (takeWhile (\<lambda>c. c \<noteq> CHR ''/'') (rev p))"

definition parent_directory :: "string \<Rightarrow> string" where
  "parent_directory p =
     (if CHR ''/'' \<notin> set p then ''.''
      else (let d = rev (drop 1 (dropWhile (\<lambda>c. c \<noteq> CHR ''/'') (rev p)))
            in if d = [] then ''/'' else d))"

definition resolve_segments :: "string \<Rightarrow> string list \<Rightarrow> string" where
  "resolve_segments cwd ps =
     foldl (\<lambda>acc p. if p = [] then acc
                     else if hd p = CHR ''/'' then p
                     else acc @ ''/'' @ p) cwd ps"

text \<open>
  \<open>toLowerCase\<close> on ASCII text, where it maps the letters \<open>A\<close> to \<open>Z\<close> and nothing
  else. On other text JavaScript does more (U+212A becomes \<open>k\<close>); the example platform
  is used on ASCII paths only.
\<close>

definition lower_char :: "char \<Rightarrow> char" where
  "lower_char c =
     (case map_of (zip ''ABCDEFGHIJKLMNOPQRSTUVWXYZ'' ''abcdefghijklmnopqrstuvwxyz'') c of
        None \<Rightarrow> c
      | Some d \<Rightarrow> d)"

definition ascii_toLowerCase :: "string \<Rightarrow> string" where
  "ascii_toLowerCase s = map lower_char s"

definition fs_error :: "string \<Rightarrow> string \<Rightarrow> js_error" where
  "fs_error code text =
     \<lparr>err_message = Some (code @ '': '' @ text), err_status = None, err_code = Some code,
      err_printed = ''Error: '' @ code @ '': '' @ text\<rparr>"

text \<open>
  The operating system refuses to create a directory at or below a regular file, and
  to write a file below a regular file.
\<close>

definition below_a_file :: "(string \<times> string) list \<Rightarrow> string \<Rightarrow> bool" where
  "below_a_file files p = list_ex (\<lambda>entry. prefix (fst entry @ ''/'') p) files"

definition ENOENT :: "string \<Rightarrow> js_error" where
  "ENOENT p =
     \<lparr>err_message = Some (''ENOENT: no such file or directory, open '' @ quote @ p @ quote),
      err_status = None, err_code = Some ''ENOENT'',
      err_printed = ''Error: ENOENT: no such file or directory, open '' @ quote @ p @ quote\<rparr>"

definition posix_node :: "string \<Rightarrow> (string \<times> string) list \<Rightarrow> (nat \<Rightarrow> string) \<Rightarrow> node" where
  "posix_node cwd files clock =
     \<lparr>path_resolve = resolve_segments cwd,
      path_basename = last_component,
      path_extname = posix_extname,
      path_dirname = parent_directory,
      toLowerCase = ascii_toLowerCase,
      readFileSync = (\<lambda>p. case map_of files p of None \<Rightarrow> Inl (ENOENT p) | Some c \<Rightarrow> Inr c),
      mkdir_error =
        (\<lambda>d. if map_of files d \<noteq> None then
                Some (fs_error ''EEXIST'' (''file already exists, mkdir '' @ quote @ d @ quote))
              else if below_a_file files d then
                Some (fs_error ''ENOTDIR'' (''not a directory, mkdir '' @ quote @ d @ quote))
              else None),
      write_error =
        (\<lambda>p. if below_a_file files p then
                Some (fs_error ''ENOTDIR'' (''not a directory, open '' @ quote @ p @ quote))
              else None),
      date_iso = clock\<rparr>"

section \<open>Reference definitions and example inputs\<close>

text \<open>
  The specification's wording of citation deduplication: a citation is dropped when its
  URL was emitted earlier; the first occurrence wins.
\<close>

fun first_occurrences :: "citation list \<Rightarrow> citation list" where
  "first_occurrences [] = []"
| "first_occurrences (c # cs) = c # filter (\<lambda>d. url d \<noteq> url c) (first_occurrences cs)"

text \<open>
  A search response: a search call, then two messages with three annotated citations,
  two of which share a URL; the second citation has no title.
\<close>

definition example_search_response :: response where
  "example_search_response =
     \<lparr>resp_output = Some
        [\<lparr>item_type = ''web_search_call'', item_content = None, item_summary = None,
          item_code = None, item_results = None\<rparr>,
         \<lparr>item_type = ''message'',
          item_content = Some
            [\<lparr>part_type = ''output_text'', part_text = ''Alpha. '',
              part_annotations = Some
                [\<lparr>ann_type = ''url_citation'', ann_title = Some ''First'',
                  ann_url = Some ''https://a.example''\<rparr>,
                 \<lparr>ann_type = ''url_citation'', ann_title = None,
                  ann_url = Some ''https://b.example''\<rparr>]\<rparr>],
          item_summary = None, item_code = None, item_results = None\<rparr>,
         \<lparr>item_type = ''message'',
          item_content = Some
            [\<lparr>part_type = ''output_text'', part_text = ''Beta.'',
              part_annotations = Some
                [\<lparr>ann_type = ''url_citation'', ann_title = Some ''Second'',
                  ann_url = Some ''https://a.example''\<rparr>]\<rparr>],
          item_summary = None, item_code = None, item_results = None\<rparr>]\<rparr>"

text \<open>
  Example collaborators: a provider that answers every request after \<open>lat\<close>
  milliseconds, a POSIX machine with three files, a stopped clock, and a configuration.
\<close>

definition example_client :: "nat \<Rightarrow> nat \<Rightarrow> response \<Rightarrow> images_response \<Rightarrow> OpenAIClient" where
  "example_client base lat resp imgs =
     \<lparr>timeout = Num (int base),
      responses_create = (\<lambda>params. \<lparr>latency = lat, outcome = Inr resp\<rparr>),
      files_create = (\<lambda>p. \<lparr>latency = lat, outcome = Inr \<lparr>file_id = ''file-abc123''\<rparr>\<rparr>),
      images_generate = (\<lambda>params. \<lparr>latency = lat, outcome = Inr imgs\<rparr>),
      images_edit = (\<lambda>params. \<lparr>latency = lat, outcome = Inr imgs\<rparr>),
      speech_create = (\<lambda>params. \<lparr>latency = lat, outcome = Inr ''ID3''\<rparr>),
      transcriptions_create =
        (\<lambda>params. \<lparr>latency = lat, outcome = Inr \<lparr>transcription_text = ''hello''\<rparr>\<rparr>)\<rparr>"

definition example_node :: node where
  "example_node =
     posix_node ''/work''
       [(''/work/in.png'', ''PNG''), (''/work/notes.ts'', ''export {}''),
        (''/work/readme.md'', ''# Readme'')]
       (\<lambda>k. ''2026-01-02T03:04:05.678Z'')"

definition example_disk :: disk where
  "example_disk =
     \<lparr>present = (\<lambda>p. p \<in> set [''/work'', ''/work/in.png'', ''/work/notes.ts'', ''/work/readme.md'']),
      contents =
        map_of [(''/work/in.png'', ''PNG''), (''/work/notes.ts'', ''export {}''),
                (''/work/readme.md'', ''# Readme'')],
      writes = [], dates_read = 0\<rparr>"

definition example_config :: Config where
  "example_config =
     \<lparr>apiKey = ''sk-test'', defaultModel = ''gpt-4.1'', cfg_timeout = Num 60000,
      outputDir = ''/work/media''\<rparr>"

text \<open>A response with a reasoning item and a message whose only part is a refusal.\<close>

definition example_textless_response :: response where
  "example_textless_response =
     \<lparr>resp_output = Some
        [\<lparr>item_type = ''reasoning'', item_content = None, item_summary = Some [],
          item_code = None, item_results = None\<rparr>,
         \<lparr>item_type = ''message'',
          item_content = Some
            [\<lparr>part_type = ''refusal'', part_text = ''no'', part_annotations = None\<rparr>],
          item_summary = None, item_code = None, item_results = None\<rparr>]\<rparr>"


definition example_images_two :: images_response where
  "example_images_two =
     \<lparr>img_data = Some
        [\<lparr>b64_json = Some ''AAAA'', revised_prompt = Some ''a red kite''\<rparr>,
         \<lparr>b64_json = Some ''BBBB'', revised_prompt = None\<rparr>]\<rparr>"

definition example_images_blocked :: images_response where
  "example_images_blocked = \<lparr>img_data = Some [\<lparr>b64_json = None, revised_prompt = None\<rparr>]\<rparr>"

text \<open>Names for what the claims speak of.\<close>

definition output_items :: "response \<Rightarrow> output_item list" where
  "output_items r = (case resp_output r of None \<Rightarrow> [] | Some items \<Rightarrow> items)"

definition ask_request :: "Config \<Rightarrow> ask_input \<Rightarrow> responses_params" where
  "ask_request config inp =
     \<lparr>rp_model = or_else (ask_model inp) (defaultModel config),
      rp_input = [\<lparr>role = ''user'', content = Text (ask_prompt inp)\<rparr>], rp_tools = None,
      rp_reasoning_effort = None\<rparr>"




text \<open>
  The save loop in closed form: the path chosen for the image of index \<open>k\<close> when the
  clock has been read \<open>t\<close> times, the clock reads after \<open>j\<close> rounds, and the two reply
  parts of one image.
\<close>

definition planned_path :: "node \<Rightarrow> Config \<Rightarrow> string option \<Rightarrow> nat \<Rightarrow> nat \<Rightarrow> nat \<Rightarrow> string" where
  "planned_path nd config save_path count t k =
     fst (choose_save_path nd config
            \<lparr>present = (\<lambda>p. False), contents = (\<lambda>p. None), writes = [], dates_read = t\<rparr>
            save_path count k)"

definition clock_after :: "string option \<Rightarrow> nat \<Rightarrow> nat \<Rightarrow> nat" where
  "clock_after save_path t j = (if truthy save_path then t else t + j)"

definition image_parts :: "nat \<Rightarrow> string \<Rightarrow> ImageGenerationResponse_image \<Rightarrow> reply_part list" where
  "image_parts k p img =
     [Image_part (b64 img) ''image/png'',
      Text_part (image_text (''Image '' @ string_of_nat (k + 1) @ '' saved to: '') p img)]"

text \<open>
  For \<open>edit_image\<close>: the path the first image is saved to, and the two existence
  checks that precede the upstream call.
\<close>

definition edit_save_path :: "node \<Rightarrow> Config \<Rightarrow> disk \<Rightarrow> string option \<Rightarrow> string" where
  "edit_save_path nd config st save_path =
     (if truthy save_path then or_else save_path []
      else fst (getAutoSavePath nd st (outputDir config) ''edited'' ''png''))"

definition edit_ready :: "node \<Rightarrow> disk \<Rightarrow> edit_image_input \<Rightarrow> bool" where
  "edit_ready nd st inp =
     (present st (path_resolve nd [ei_image_path inp])
      \<and> (\<not> truthy (ei_mask_path inp)
          \<or> present st (path_resolve nd [or_else (ei_mask_path inp) []])))"

text \<open>Example tool inputs.\<close>

definition example_generate_input :: "string option \<Rightarrow> generate_image_input" where
  "example_generate_input save_path =
     \<lparr>gi_prompt = ''a kite'', gi_size = None, gi_quality = None, gi_n = Some 2,
      gi_save_path = save_path\<rparr>"

definition example_edit_input :: edit_image_input where
  "example_edit_input =
     \<lparr>ei_prompt = ''make it blue'', ei_image_path = ''/work/in.png'', ei_mask_path = None,
      ei_size = None, ei_quality = None, ei_save_path = Some ''/work/out.png''\<rparr>"

definition image_A :: ImageGenerationResponse_image where
  "image_A = \<lparr>b64 = ''AAAA'', revisedPrompt = Some ''a red kite''\<rparr>"

definition image_B :: ImageGenerationResponse_image where
  "image_B = \<lparr>b64 = ''BBBB'', revisedPrompt = None\<rparr>"

text \<open>
  What racing a call against a deadline of \<open>ms\<close> milliseconds comes to, in the words of
  the specification: the call's own outcome when it settles no later than the timer
  fires, the Timeout error otherwise. In the second form the rejection reaches the
  caller as it is.
\<close>

definition raced_against :: "js_number \<Rightarrow> 'a call \<Rightarrow> ('a \<Rightarrow> 'b) \<Rightarrow> string + 'b" where
  "raced_against ms c extract =
     (if latency c \<le> timer_delay ms then
        (case outcome c of Inl error \<Rightarrow> Inl (handleError error) | Inr r \<Rightarrow> Inr (extract r))
      else Inl (category_message Timeout timeout_error))"

definition raced_unclassified :: "js_number \<Rightarrow> 'a call \<Rightarrow> ('a \<Rightarrow> 'b) \<Rightarrow> js_error + 'b" where
  "raced_unclassified ms c extract =
     (if latency c \<le> timer_delay ms then
        (case outcome c of Inl error \<Rightarrow> Inl error | Inr r \<Rightarrow> Inr (extract r))
      else Inl timeout_error)"

text \<open>
  The disk accepts a save at a path when creating the directory of the path and
  writing the file both go through.
\<close>

definition accepts :: "node \<Rightarrow> string \<Rightarrow> bool" where
  "accepts nd p = (mkdir_error nd (path_dirname nd p) = None \<and> write_error nd p = None)"

text \<open>The confirmation text of an upload without a question.\<close>

definition upload_confirmation :: "string \<Rightarrow> string \<Rightarrow> string" where
  "upload_confirmation fileName fid =
     ''File '' @ quote @ fileName @ quote @ '' uploaded successfully.'' @ nl
     @ ''File ID: '' @ fid @ nl @ nl
     @ ''Use this file_id with the '' @ quote @ ''ask'' @ quote @ '' tool''
     @ quote @ ''s file_ids parameter to ask questions about it.''"

text \<open>
  What a file holds after a list of writes: each write replaces what its path held.
\<close>

definition apply_writes ::
  "(string \<Rightarrow> string option) \<Rightarrow> (string \<times> string) list \<Rightarrow> (string \<Rightarrow> string option)" where
  "apply_writes m ws = foldl (\<lambda>held w. held(fst w := Some (snd w))) m ws"

text \<open>
  The path \<open>generate_image\<close> chooses for the image of index \<open>k\<close> out of \<open>count\<close>, when
  the invocation starts on the disk \<open>st\<close>.
\<close>

definition generated_path ::
  "node \<Rightarrow> Config \<Rightarrow> disk \<Rightarrow> string option \<Rightarrow> nat \<Rightarrow> nat \<Rightarrow> string" where
  "generated_path nd config st save_path count k =
     planned_path nd config save_path count (clock_after save_path (dates_read st) k) k"

text \<open>
  A provider that answers a question with the text it was sent: one \<open>output_text\<close>
  part per message of the request, holding the role and the content of the message.
\<close>

definition echo_part :: "input_part \<Rightarrow> string" where
  "echo_part p =
     (case p of
        Input_file fid \<Rightarrow> ''[file '' @ fid @ '']''
      | Input_text t \<Rightarrow> t
      | Input_image u d \<Rightarrow> ''[image]'')"

definition echo_response :: "responses_params \<Rightarrow> response" where
  "echo_response params =
     \<lparr>resp_output = Some
        [\<lparr>item_type = ''message'',
          item_content = Some
            (map (\<lambda>m. \<lparr>part_type = ''output_text'',
                        part_text =
                          role m @ '': ''
                          @ (case content m of
                               Text t \<Rightarrow> t
                             | Parts ps \<Rightarrow> concat (map echo_part ps)),
                        part_annotations = None\<rparr>)
               (rp_input params)),
          item_summary = None, item_code = None, item_results = None\<rparr>]\<rparr>"

definition example_echo_client :: "int \<Rightarrow> nat \<Rightarrow> OpenAIClient" where
  "example_echo_client base lat =
     \<lparr>timeout = Num base,
      responses_create = (\<lambda>params. \<lparr>latency = lat, outcome = Inr (echo_response params)\<rparr>),
      files_create = (\<lambda>p. \<lparr>latency = lat, outcome = Inr \<lparr>file_id = ''file-abc123''\<rparr>\<rparr>),
      images_generate = (\<lambda>params. \<lparr>latency = lat, outcome = Inr \<lparr>img_data = None\<rparr>\<rparr>),
      images_edit = (\<lambda>params. \<lparr>latency = lat, outcome = Inr \<lparr>img_data = None\<rparr>\<rparr>),
      speech_create = (\<lambda>params. \<lparr>latency = lat, outcome = Inr ''ID3''\<rparr>),
      transcriptions_create =
        (\<lambda>params. \<lparr>latency = lat, outcome = Inr \<lparr>transcription_text = ''hello''\<rparr>\<rparr>)\<rparr>"

section \<open>Properties of the error classifier\<close>

lemma handleError_classify: "handleError e = category_message (classify e) e"
  by (simp add: handleError_def classify_def is_timeout_sentinel_def has_status_def
      connection_code_def)

lemma category_message_inj: "category_message c e = category_message c' e \<Longrightarrow> c = c'"
  by (cases c; cases c'; simp)

text \<open>
  Claim C1. The classifier follows the first-match table: the error it returns is the
  template of the category that the table of the specification selects, no other
  category has that template, and a failure with status 401 or 403 that is not the
  timeout sentinel (case 1 of the table) gets the AuthInvalid template whatever its
  error code and message are, so also when the message contains the network marker.
\<close>

theorem handleError_first_match:
  "handleError e = category_message (classify e) e
   \<and> (\<forall>c. handleError e = category_message c e \<longrightarrow> c = classify e)
   \<and> (err_message e \<noteq> Some ''Request timeout''
        \<and> (err_status e = Some 401 \<or> err_status e = Some 403)
      \<longrightarrow> classify e = AuthInvalid
          \<and> handleError e = category_message AuthInvalid e)"
proof (intro conjI allI impI)
  show "handleError e = category_message (classify e) e"
    by (rule handleError_classify)
next
  fix c assume "handleError e = category_message c e"
  then have "category_message c e = category_message (classify e) e"
    by (simp add: handleError_classify)
  then show "c = classify e" by (rule category_message_inj)
next
  assume h: "err_message e \<noteq> Some ''Request timeout''
        \<and> (err_status e = Some 401 \<or> err_status e = Some 403)"
  then show "classify e = AuthInvalid"
    by (auto simp: classify_def is_timeout_sentinel_def has_status_def)
  from h show "handleError e = category_message AuthInvalid e"
    by (auto simp: handleError_def)
qed

theorem handleError_first_match_witness:
  "err_message \<lparr>err_message = Some ''fetch failed'', err_status = Some 401,
                 err_code = Some ''ENOTFOUND'', err_printed = ''TypeError: fetch failed''\<rparr>
     \<noteq> Some ''Request timeout''
   \<and> message_includes \<lparr>err_message = Some ''fetch failed'', err_status = Some 401,
                 err_code = Some ''ENOTFOUND'', err_printed = ''TypeError: fetch failed''\<rparr> ''fetch''
   \<and> classify \<lparr>err_message = Some ''fetch failed'', err_status = Some 401,
                 err_code = Some ''ENOTFOUND'', err_printed = ''TypeError: fetch failed''\<rparr>
       = AuthInvalid
   \<and> handleError \<lparr>err_message = Some ''fetch failed'', err_status = Some 401,
                 err_code = Some ''ENOTFOUND'', err_printed = ''TypeError: fetch failed''\<rparr>
       = ''Invalid OpenAI API key. Please check your OPENAI_API_KEY environment variable.''"
proof -
  let ?e = "\<lparr>err_message = Some ''fetch failed'', err_status = Some 401,
             err_code = Some ''ENOTFOUND'', err_printed = ''TypeError: fetch failed''\<rparr>"
  have h: "err_message ?e \<noteq> Some ''Request timeout''
           \<and> (err_status ?e = Some 401 \<or> err_status ?e = Some 403)"
    by simp
  have m: "message_includes ?e ''fetch''" by simp
  from handleError_first_match [of ?e] h
  have "classify ?e = AuthInvalid \<and> handleError ?e = category_message AuthInvalid ?e"
    by blast
  with h m show ?thesis by simp
qed

section \<open>Properties of the search extractor\<close>

lemma dedup_first_occurrences:
  "dedup seen cs = filter (\<lambda>d. url d \<notin> seen) (first_occurrences cs)"
proof (induction cs arbitrary: seen)
  case Nil
  show ?case by simp
next
  case (Cons c cs)
  show ?case
  proof (cases "url c \<in> seen")
    case True
    then have "filter (\<lambda>d. url d \<noteq> url c \<and> url d \<notin> seen) (first_occurrences cs)
        = filter (\<lambda>d. url d \<notin> seen) (first_occurrences cs)"
      by (intro filter_cong) auto
    with True Cons show ?thesis by simp
  next
    case False
    have "filter (\<lambda>d. url d \<noteq> url c \<and> url d \<notin> seen) (first_occurrences cs)
        = filter (\<lambda>d. url d \<noteq> url c \<and> url d \<noteq> url c \<and> url d \<notin> seen) (first_occurrences cs)"
      by (intro filter_cong) auto
    with False Cons show ?thesis by simp
  qed
qed

lemma dedup_urls: "url ` set (dedup seen cs) = url ` set cs - seen"
  by (induction cs arbitrary: seen) auto

lemma dedup_distinct: "distinct (map url (dedup seen cs))"
proof (induction cs arbitrary: seen)
  case Nil show ?case by simp
next
  case (Cons c cs)
  have "url c \<notin> url ` set (dedup (insert (url c) seen) cs)"
    by (simp add: dedup_urls)
  with Cons show ?case by simp
qed

lemma dedup_subseq: "subseq (dedup seen cs) cs"
  by (induction cs arbitrary: seen) auto

lemma dedup_first:
  "c \<in> set (dedup seen cs) \<Longrightarrow> find (\<lambda>d. url d = url c) cs = Some c"
proof (induction cs arbitrary: seen)
  case Nil then show ?case by simp
next
  case (Cons a cs)
  show ?case
  proof (cases "c = a")
    case True then show ?thesis by simp
  next
    case False
    have "url c \<noteq> url a"
    proof (cases "url a \<in> seen")
      case True
      with Cons.prems have "c \<in> set (dedup seen cs)" by simp
      then have "url c \<in> url ` set cs - seen" using dedup_urls by blast
      with True show ?thesis by auto
    next
      case F: False
      with Cons.prems False have "c \<in> set (dedup (insert (url a) seen) cs)" by simp
      then have "url c \<in> url ` set cs - insert (url a) seen" using dedup_urls by blast
      then show ?thesis by auto
    qed
    moreover have "c \<in> set (dedup seen cs) \<or> c \<in> set (dedup (insert (url a) seen) cs)"
      using Cons.prems False by (auto split: if_splits)
    ultimately show ?thesis using Cons.IH by auto
  qed
qed

text \<open>
  Claim C3. The citations of the search extractor are the harvested citations with
  every later occurrence of a URL removed: no URL occurs twice, every harvested URL
  occurs, the result is a subsequence of the harvested list (so it keeps the order in
  which the URLs were first seen), each kept citation is the first harvested one with
  its URL (so it carries that occurrence's title), and a harvested citation whose
  annotation has no title is titled "Untitled".
\<close>

theorem extractSearchResponse_first_occurrence:
  "sw_citations (extractSearchResponse r) = first_occurrences (harvest r)
   \<and> distinct (map url (sw_citations (extractSearchResponse r)))
   \<and> set (map url (sw_citations (extractSearchResponse r))) = set (map url (harvest r))
   \<and> subseq (sw_citations (extractSearchResponse r)) (harvest r)
   \<and> (\<forall>c \<in> set (sw_citations (extractSearchResponse r)).
         find (\<lambda>d. url d = url c) (harvest r) = Some c)
   \<and> (\<forall>ann. ann_title ann = None \<longrightarrow> title (citation_of ann) = ''Untitled'')"
proof -
  have eq: "sw_citations (extractSearchResponse r) = dedup {} (harvest r)"
    by (simp add: extractSearchResponse_def Let_def)
  have "dedup {} (harvest r) = first_occurrences (harvest r)"
    by (simp add: dedup_first_occurrences)
  moreover have "distinct (map url (dedup {} (harvest r)))" by (rule dedup_distinct)
  moreover have "set (map url (dedup {} (harvest r))) = set (map url (harvest r))"
    using dedup_urls [of "{}" "harvest r"] by simp
  moreover have "subseq (dedup {} (harvest r)) (harvest r)" by (rule dedup_subseq)
  moreover have "\<forall>c \<in> set (dedup {} (harvest r)). find (\<lambda>d. url d = url c) (harvest r) = Some c"
    using dedup_first by blast
  moreover have "\<forall>ann. ann_title ann = None \<longrightarrow> title (citation_of ann) = ''Untitled''"
    by (simp add: citation_of_def)
  ultimately show ?thesis unfolding eq by blast
qed


theorem extractSearchResponse_first_occurrence_witness:
  "harvest example_search_response =
     [\<lparr>title = ''First'', url = ''https://a.example''\<rparr>,
      \<lparr>title = ''Untitled'', url = ''https://b.example''\<rparr>,
      \<lparr>title = ''Second'', url = ''https://a.example''\<rparr>]
   \<and> sw_citations (extractSearchResponse example_search_response) =
     [\<lparr>title = ''First'', url = ''https://a.example''\<rparr>,
      \<lparr>title = ''Untitled'', url = ''https://b.example''\<rparr>]
   \<and> \<lparr>title = ''First'', url = ''https://a.example''\<rparr>
       \<in> set (sw_citations (extractSearchResponse example_search_response))
   \<and> find (\<lambda>d. url d = ''https://a.example'') (harvest example_search_response)
       = Some \<lparr>title = ''First'', url = ''https://a.example''\<rparr>
   \<and> ann_title \<lparr>ann_type = ''url_citation'', ann_title = None,
                  ann_url = Some ''https://b.example''\<rparr> = None
   \<and> title (citation_of \<lparr>ann_type = ''url_citation'', ann_title = None,
                  ann_url = Some ''https://b.example''\<rparr>) = ''Untitled''"
proof -
  have hs: "harvest example_search_response =
     [\<lparr>title = ''First'', url = ''https://a.example''\<rparr>,
      \<lparr>title = ''Untitled'', url = ''https://b.example''\<rparr>,
      \<lparr>title = ''Second'', url = ''https://a.example''\<rparr>]"
    by (simp add: harvest_def example_search_response_def message_parts_def
        part_citations_def citation_of_def)
  note t = extractSearchResponse_first_occurrence [of example_search_response]
  from t have res: "sw_citations (extractSearchResponse example_search_response) =
     [\<lparr>title = ''First'', url = ''https://a.example''\<rparr>,
      \<lparr>title = ''Untitled'', url = ''https://b.example''\<rparr>]"
    by (simp add: hs)
  from t have "\<forall>c \<in> set (sw_citations (extractSearchResponse example_search_response)).
         find (\<lambda>d. url d = url c) (harvest example_search_response) = Some c"
    by blast
  then have f: "find (\<lambda>d. url d = ''https://a.example'') (harvest example_search_response)
       = Some \<lparr>title = ''First'', url = ''https://a.example''\<rparr>"
    by (simp add: res)
  from t have "title (citation_of \<lparr>ann_type = ''url_citation'', ann_title = None,
                  ann_url = Some ''https://b.example''\<rparr>) = ''Untitled''"
    by simp
  with hs res f show ?thesis by simp
qed

section \<open>Helper lemmas\<close>

lemma settle_in_time:
  "latency c \<le> timer_delay ms \<Longrightarrow> outcome c = Inr r \<Longrightarrow> settle (race c ms) f = Inr (f r)"
  by (simp add: settle_def race_def)

lemma handleError_timeout_error:
  "handleError timeout_error = ''OpenAI API request timed out. Please try again.''"
  by (simp add: handleError_def timeout_error_def)

lemma settle_late:
  "\<not> latency c \<le> timer_delay ms \<Longrightarrow>
     settle (race c ms) f = Inl ''OpenAI API request timed out. Please try again.''"
  by (simp add: settle_def race_def handleError_timeout_error)

lemma item_texts_empty:
  "\<forall>part \<in> set (message_parts item). part_type part \<noteq> ''output_text'' \<Longrightarrow> item_texts item = []"
  by (simp add: item_texts_def filter_empty_conv)

lemma extractText_no_output_text:
  assumes "\<forall>item \<in> set (output_items r). \<forall>part \<in> set (message_parts item).
             part_type part \<noteq> ''output_text''"
  shows "extractText r = []"
proof (cases "resp_output r")
  case None
  then show ?thesis by (simp add: extractText_def)
next
  case (Some items)
  with assms have "\<forall>item \<in> set items. item_texts item = []"
    by (simp add: output_items_def item_texts_empty)
  then have "concat (map item_texts items) = []" by simp
  with Some show ?thesis by (simp add: extractText_def)
qed








lemma choose_fst:
  "fst (choose_save_path nd config st sp count k) = planned_path nd config sp count (dates_read st) k"
  by (simp add: choose_save_path_def planned_path_def getAutoSavePath_def Let_def)

lemma choose_snd:
  "snd (choose_save_path nd config st sp count k)
     = (if truthy sp then st else st\<lparr>dates_read := dates_read st + 1\<rparr>)"
  by (simp add: choose_save_path_def getAutoSavePath_def Let_def)

lemma planned_path_explicit:
  "truthy sp \<Longrightarrow> planned_path nd config sp count t k = planned_path nd config sp count t' k"
  by (simp add: planned_path_def choose_save_path_def Let_def)

lemma saveImage_dates: "dates_read (snd (saveImage nd st data p)) = dates_read st"
  by (simp add: saveImage_def saveFile_def Let_def split: option.splits)

lemma saveImage_accepted:
  assumes "accepts nd p"
  shows "fst (saveImage nd st data p) = Inr p"
    and "writes (snd (saveImage nd st data p)) = writes st @ [(p, data)]"
    and "contents (snd (saveImage nd st data p)) = (contents st)(p := Some data)"
  using assms by (simp_all add: saveImage_def saveFile_def accepts_def Let_def)

lemma saveImage_Inr: "fst (saveImage nd st data p) = Inr q \<Longrightarrow> q = p"
  by (auto simp: saveImage_def saveFile_def Let_def split: option.splits if_splits)

lemma save_loop_refused:
  "fst (saveImage nd (snd (choose_save_path nd config st sp count i)) (b64 img)
          (fst (choose_save_path nd config st sp count i))) = Inl error
   \<Longrightarrow> fst (save_loop nd config sp count i (img # rest) (parts, st)) = Inl error"
  by (simp add: case_prod_beta split: sum.splits prod.splits)

lemma save_loop_step:
  assumes "accepts nd (planned_path nd config sp count (dates_read st) i)"
  shows "save_loop nd config sp count i (img # rest) (parts, st) =
     save_loop nd config sp count (Suc i) rest
       (parts @ image_parts i (planned_path nd config sp count (dates_read st) i) img,
        snd (saveImage nd (snd (choose_save_path nd config st sp count i)) (b64 img)
               (planned_path nd config sp count (dates_read st) i)))"
proof -
  obtain p st1 where c: "choose_save_path nd config st sp count i = (p, st1)"
    by (cases "choose_save_path nd config st sp count i")
  obtain q st2 where s: "saveImage nd st1 (b64 img) p = (q, st2)"
    by (cases "saveImage nd st1 (b64 img) p")
  have p: "p = planned_path nd config sp count (dates_read st) i"
    using choose_fst [of nd config st sp count i] c by simp
  have q: "q = Inr p" using saveImage_accepted(1) [of nd p st1 "b64 img"] assms s p by simp
  show ?thesis using c s p q by (simp add: image_parts_def)
qed

lemma save_loop_length:
  "fst (save_loop nd config sp count i imgs (parts, st)) = Inr ps
   \<Longrightarrow> length ps = length parts + 2 * length imgs"
proof (induction imgs arbitrary: i parts st)
  case Nil
  then show ?case by simp
next
  case (Cons img rest)
  obtain p st1 where c: "choose_save_path nd config st sp count i = (p, st1)"
    by (cases "choose_save_path nd config st sp count i")
  obtain q st2 where s: "saveImage nd st1 (b64 img) p = (q, st2)"
    by (cases "saveImage nd st1 (b64 img) p")
  show ?case
  proof (cases q)
    case (Inl error)
    with Cons.prems c s show ?thesis by simp
  next
    case (Inr savedTo)
    with Cons.prems c s have "fst (save_loop nd config sp count (i + 1) rest
        (parts @ [Image_part (b64 img) ''image/png'',
                  Text_part (image_text (''Image '' @ string_of_nat (i + 1) @ '' saved to: '')
                               savedTo img)], st2)) = Inr ps"
      by simp
    from Cons.IH [OF this] show ?thesis by simp
  qed
qed

lemma clock_after_step:
  "clock_after sp (dates_read (snd (saveImage nd (snd (choose_save_path nd config st sp count i)) d p))) j
     = clock_after sp (dates_read st) (Suc j)"
  by (simp add: saveImage_dates choose_snd clock_after_def)

lemma apply_writes_Cons: "apply_writes m (w # ws) = apply_writes (m(fst w := Some (snd w))) ws"
  by (simp add: apply_writes_def)

lemma apply_writes_Nil: "apply_writes m [] = m"
  by (simp add: apply_writes_def)



lemma save_loop_result:
  assumes "\<forall>j < length imgs. accepts nd (planned_path nd config sp count
                                            (clock_after sp (dates_read st) j) (i + j))"
  shows "fst (save_loop nd config sp count i imgs (parts, st))
     = Inr (parts @ concat (map (\<lambda>j. image_parts (i + j)
                                  (planned_path nd config sp count
                                     (clock_after sp (dates_read st) j) (i + j))
                                  (imgs ! j))
                         [0..<length imgs]))
   \<and> writes (snd (save_loop nd config sp count i imgs (parts, st)))
     = writes st @ map (\<lambda>j. (planned_path nd config sp count
                                 (clock_after sp (dates_read st) j) (i + j),
                               b64 (imgs ! j)))
                     [0..<length imgs]
   \<and> contents (snd (save_loop nd config sp count i imgs (parts, st)))
     = apply_writes (contents st)
         (map (\<lambda>j. (planned_path nd config sp count
                       (clock_after sp (dates_read st) j) (i + j),
                     b64 (imgs ! j)))
            [0..<length imgs])"
  using assms
proof (induction imgs arbitrary: i parts st)
  case Nil
  show ?case by (simp add: apply_writes_Nil)
next
  case (Cons img rest)
  define p0 where "p0 = planned_path nd config sp count (dates_read st) i"
  define st2 where
    "st2 = snd (saveImage nd (snd (choose_save_path nd config st sp count i)) (b64 img) p0)"
  define path where
    "path = (\<lambda>j. planned_path nd config sp count (clock_after sp (dates_read st) j) (i + j))"
  have p0: "path 0 = p0"
    by (simp add: path_def p0_def clock_after_def)
  have acc: "\<forall>j < length (img # rest). accepts nd (path j)"
    using Cons.prems by (simp add: path_def)
  then have a0: "accepts nd p0" using p0 by auto
  have d2: "\<And>j. clock_after sp (dates_read st2) j = clock_after sp (dates_read st) (Suc j)"
    unfolding st2_def by (rule clock_after_step)
  have w2: "writes st2 = writes st @ [(p0, b64 img)]"
    unfolding st2_def using a0 by (simp add: saveImage_accepted choose_snd)
  have c2: "contents st2 = (contents st)(p0 := Some (b64 img))"
    unfolding st2_def using a0 by (simp add: saveImage_accepted choose_snd)
  have step: "save_loop nd config sp count i (img # rest) (parts, st)
      = save_loop nd config sp count (Suc i) rest (parts @ image_parts i p0 img, st2)"
    unfolding st2_def p0_def
    using save_loop_step [of nd config sp count st i img rest parts] a0
    by (simp add: p0_def)
  have shift: "\<And>j. planned_path nd config sp count (clock_after sp (dates_read st2) j) (Suc (i + j))
      = path (Suc j)"
    by (simp add: d2 path_def)
  have acc2: "\<forall>j < length rest. accepts nd (planned_path nd config sp count
                                            (clock_after sp (dates_read st2) j) (Suc i + j))"
    using acc by (auto simp: d2 path_def)
  note ih = Cons.IH [of st2 "Suc i" "parts @ image_parts i p0 img", OF acc2]
  have parts_eq: "fst (save_loop nd config sp count (Suc i) rest (parts @ image_parts i p0 img, st2))
      = Inr ((parts @ image_parts i p0 img)
        @ concat (map (\<lambda>j. image_parts (i + Suc j) (path (Suc j)) (rest ! j)) [0..<length rest]))"
    using ih by (simp only: shift add_Suc add_Suc_right)
  have writes_eq: "writes (snd (save_loop nd config sp count (Suc i) rest
                                  (parts @ image_parts i p0 img, st2)))
      = (writes st @ [(p0, b64 img)])
        @ map (\<lambda>j. (path (Suc j), b64 (rest ! j))) [0..<length rest]"
    using ih by (simp only: shift w2 add_Suc add_Suc_right)
  have contents_eq: "contents (snd (save_loop nd config sp count (Suc i) rest
                                  (parts @ image_parts i p0 img, st2)))
      = apply_writes ((contents st)(p0 := Some (b64 img)))
          (map (\<lambda>j. (path (Suc j), b64 (rest ! j))) [0..<length rest])"
    using ih by (simp only: shift c2 add_Suc add_Suc_right)
  have m1: "map (\<lambda>j. image_parts (i + j) (path j) ((img # rest) ! j)) [0..<length (img # rest)]
      = image_parts i p0 img
        # map (\<lambda>j. image_parts (i + Suc j) (path (Suc j)) (rest ! j)) [0..<length rest]"
    by (simp add: map_upt_Suc p0 del: upt_Suc)
  have m2: "map (\<lambda>j. (path j, b64 ((img # rest) ! j))) [0..<length (img # rest)]
      = (p0, b64 img) # map (\<lambda>j. (path (Suc j), b64 (rest ! j))) [0..<length rest]"
    by (simp add: map_upt_Suc p0 del: upt_Suc)
  have goal1: "fst (save_loop nd config sp count i (img # rest) (parts, st))
      = Inr (parts @ concat (map (\<lambda>j. image_parts (i + j) (path j) ((img # rest) ! j))
                          [0..<length (img # rest)]))"
    unfolding step parts_eq m1 by simp
  have goal2: "writes (snd (save_loop nd config sp count i (img # rest) (parts, st)))
      = writes st @ map (\<lambda>j. (path j, b64 ((img # rest) ! j))) [0..<length (img # rest)]"
    unfolding step writes_eq m2 by simp
  have goal3: "contents (snd (save_loop nd config sp count i (img # rest) (parts, st)))
      = apply_writes (contents st)
          (map (\<lambda>j. (path j, b64 ((img # rest) ! j))) [0..<length (img # rest)])"
    unfolding step contents_eq m2 by (simp add: apply_writes_Cons)
  from goal1 goal2 goal3 show ?case unfolding path_def by blast
qed

section \<open>The image tools, unfolded\<close>

lemma generate_image_tool_zero:
  "generateImage client (gi_prompt inp) (gi_size inp) (gi_quality inp) (gi_n inp) = Inr result
   \<Longrightarrow> images result = []
   \<Longrightarrow> generate_image_tool nd config client st inp = (failure no_image_message, st)"
  by (simp add: generate_image_tool_def)

lemma edit_image_tool_ready:
  assumes "edit_ready nd st inp"
  shows "edit_image_tool nd config client st inp =
     (case editImage nd client (ei_prompt inp) (path_resolve nd [ei_image_path inp])
             (ei_mask_path inp) (ei_size inp) (ei_quality inp) of
        Inl message \<Rightarrow> (caught (Some message), st)
      | Inr result \<Rightarrow>
          (case images result of
             [] \<Rightarrow> (failure no_edited_image_message, st)
           | img # others \<Rightarrow>
               (case saveImage nd
                       (if truthy (ei_save_path inp) then st
                        else snd (getAutoSavePath nd st (outputDir config) ''edited'' ''png''))
                       (b64 img) (edit_save_path nd config st (ei_save_path inp)) of
                  (Inl error, st2) \<Rightarrow> (caught (err_message error), st2)
                | (Inr savedTo, st2) \<Rightarrow>
                    (success [Image_part (b64 img) ''image/png'',
                              Text_part (image_text ''Edited image saved to: '' savedTo img)],
                     st2))))"
proof -
  have p: "present st (path_resolve nd [ei_image_path inp]) = True"
    using assms by (simp add: edit_ready_def)
  have m: "(truthy (ei_mask_path inp)
            \<and> \<not> present st (path_resolve nd [or_else (ei_mask_path inp) []])) = False"
    using assms by (auto simp: edit_ready_def)
  show ?thesis
    unfolding edit_image_tool_def Let_def p m
    by (cases "truthy (ei_save_path inp)")
      (simp_all add: case_prod_beta edit_save_path_def split: sum.split list.split)
qed

lemma edit_image_tool_not_ready:
  "\<not> edit_ready nd st inp \<Longrightarrow> isError (fst (edit_image_tool nd config client st inp))"
  by (auto simp: edit_image_tool_def edit_ready_def Let_def failure_def)

lemma edit_image_tool_zero:
  "edit_ready nd st inp
   \<Longrightarrow> editImage nd client (ei_prompt inp) (path_resolve nd [ei_image_path inp])
         (ei_mask_path inp) (ei_size inp) (ei_quality inp) = Inr result
   \<Longrightarrow> images result = []
   \<Longrightarrow> edit_image_tool nd config client st inp = (failure no_edited_image_message, st)"
  by (simp add: edit_image_tool_ready)

lemma generate_image_tool_saved:
  assumes "generateImage client (gi_prompt inp) (gi_size inp) (gi_quality inp) (gi_n inp)
             = Inr result"
    and "images result \<noteq> []"
    and "\<forall>k < length (images result).
           accepts nd (generated_path nd config st (gi_save_path inp) (length (images result)) k)"
  shows "fst (generate_image_tool nd config client st inp)
           = success (concat (map (\<lambda>k. image_parts k
                                       (generated_path nd config st (gi_save_path inp)
                                          (length (images result)) k)
                                       (images result ! k))
                                [0..<length (images result)]))"
    and "writes (snd (generate_image_tool nd config client st inp))
           = writes st @ map (\<lambda>k. (generated_path nd config st (gi_save_path inp)
                                       (length (images result)) k,
                                     b64 (images result ! k)))
                           [0..<length (images result)]"
    and "contents (snd (generate_image_tool nd config client st inp))
           = apply_writes (contents st)
               (map (\<lambda>k. (generated_path nd config st (gi_save_path inp)
                             (length (images result)) k,
                           b64 (images result ! k)))
                  [0..<length (images result)])"
proof -
  obtain res st' where
    l: "save_loop nd config (gi_save_path inp) (length (images result)) 0 (images result) ([], st)
          = (res, st')"
    by (cases "save_loop nd config (gi_save_path inp) (length (images result)) 0 (images result)
                 ([], st)")
  have acc: "\<forall>j < length (images result).
      accepts nd (planned_path nd config (gi_save_path inp) (length (images result))
                    (clock_after (gi_save_path inp) (dates_read st) j) (0 + j))"
    using assms(3) by (simp add: generated_path_def)
  note r = save_loop_result [of "images result" nd config "gi_save_path inp"
      "length (images result)" st 0 "[]", OF acc]
  from r l have p: "res = Inr (concat (map (\<lambda>k. image_parts k
                                       (generated_path nd config st (gi_save_path inp)
                                          (length (images result)) k)
                                       (images result ! k))
                                [0..<length (images result)]))"
    by (simp add: generated_path_def)
  from r l have w: "writes st' = writes st @ map (\<lambda>k. (generated_path nd config st (gi_save_path inp)
                                       (length (images result)) k,
                                     b64 (images result ! k)))
                           [0..<length (images result)]"
    by (simp add: generated_path_def)
  from r l have c: "contents st' = apply_writes (contents st)
               (map (\<lambda>k. (generated_path nd config st (gi_save_path inp)
                             (length (images result)) k,
                           b64 (images result ! k)))
                  [0..<length (images result)])"
    by (simp add: generated_path_def)
  have t: "generate_image_tool nd config client st inp
      = (success (concat (map (\<lambda>k. image_parts k
                                       (generated_path nd config st (gi_save_path inp)
                                          (length (images result)) k)
                                       (images result ! k))
                                [0..<length (images result)])), st')"
    using assms(1,2) l p by (simp add: generate_image_tool_def)
  show "fst (generate_image_tool nd config client st inp)
           = success (concat (map (\<lambda>k. image_parts k
                                       (generated_path nd config st (gi_save_path inp)
                                          (length (images result)) k)
                                       (images result ! k))
                                [0..<length (images result)]))"
    using t by simp
  show "writes (snd (generate_image_tool nd config client st inp))
           = writes st @ map (\<lambda>k. (generated_path nd config st (gi_save_path inp)
                                       (length (images result)) k,
                                     b64 (images result ! k)))
                           [0..<length (images result)]"
    using t w by simp
  show "contents (snd (generate_image_tool nd config client st inp))
           = apply_writes (contents st)
               (map (\<lambda>k. (generated_path nd config st (gi_save_path inp)
                             (length (images result)) k,
                           b64 (images result ! k)))
                  [0..<length (images result)])"
    using t c by simp
qed


lemma generate_image_tool_success_nonempty:
  assumes "\<not> isError (fst (generate_image_tool nd config client st inp))"
  shows "reply_content (fst (generate_image_tool nd config client st inp)) \<noteq> []"
proof (cases "generateImage client (gi_prompt inp) (gi_size inp) (gi_quality inp) (gi_n inp)")
  case (Inl message)
  with assms show ?thesis by (simp add: generate_image_tool_def caught_def failure_def)
next
  case (Inr result)
  show ?thesis
  proof (cases "images result")
    case Nil
    with Inr assms show ?thesis by (simp add: generate_image_tool_def failure_def)
  next
    case (Cons img rest)
    obtain res st' where
      l: "save_loop nd config (gi_save_path inp) (length (images result)) 0 (images result)
            ([], st) = (res, st')"
      by (cases "save_loop nd config (gi_save_path inp) (length (images result)) 0
                   (images result) ([], st)")
    show ?thesis
    proof (cases res)
      case (Inl error)
      with Inr Cons l assms show ?thesis
        by (simp add: generate_image_tool_def caught_def failure_def)
    next
      case ok: (Inr ps)
      from l ok have "fst (save_loop nd config (gi_save_path inp) (length (images result)) 0
            (images result) ([], st)) = Inr ps" by simp
      from save_loop_length [OF this] Cons have "ps \<noteq> []" by auto
      with Inr Cons l ok show ?thesis by (simp add: generate_image_tool_def success_def)
    qed
  qed
qed

lemma edit_image_tool_success_nonempty:
  assumes "\<not> isError (fst (edit_image_tool nd config client st inp))"
  shows "reply_content (fst (edit_image_tool nd config client st inp)) \<noteq> []"
proof -
  have ready: "edit_ready nd st inp"
    using assms edit_image_tool_not_ready by blast
  show ?thesis
    by (simp add: edit_image_tool_ready [OF ready] failure_def caught_def success_def
        case_prod_beta split: sum.split list.split)
qed

section \<open>The examples, evaluated\<close>

lemma example_generateImage:
  "generateImage (example_client 60000 100 r imgs) p sz q n = Inr (collect_images imgs)"
  by (simp add: generateImage_def example_client_def settle_def race_def)

lemma example_load_file:
  "load_file example_node ''/work/in.png''
     = Inr \<lparr>file_bytes = ''PNG'', file_name = ''in.png'', file_mime = ''image/png''\<rparr>"
  by code_simp

lemma example_resolve: "path_resolve example_node [''/work/in.png''] = ''/work/in.png''"
  by code_simp

lemma example_editImage:
  "editImage example_node (example_client 60000 100 r imgs) p ''/work/in.png'' None sz q
     = Inr (collect_images imgs)"
  by (simp add: editImage_def example_load_file example_client_def settle_def race_def)

lemma example_images_two_collected:
  "images (collect_images example_images_two) = [image_A, image_B]"
  by code_simp


lemma example_images_blocked_collected:
  "images (collect_images example_images_blocked) = []"
  by code_simp

lemma example_edit_ready: "edit_ready example_node example_disk example_edit_input"
  by code_simp

lemma example_extname_out: "path_extname example_node ''out'' = []"
  by code_simp

lemma example_extname_pic: "path_extname example_node ''/work/o/pic.png'' = ''.png''"
  by code_simp

lemma upt_0_2: "[0..<Suc (Suc 0)] = [0, Suc 0]"
  by code_simp

lemma string_of_nat_small:
  "string_of_nat 0 = ''0''" "string_of_nat (Suc 0) = ''1''" "string_of_nat (Suc (Suc 0)) = ''2''"
  by code_simp+

lemma example_planned_out:
  "planned_path example_node example_config (Some ''out'') (Suc (Suc 0)) t 0 = ''_0''"
  "planned_path example_node example_config (Some ''out'') (Suc (Suc 0)) t (Suc 0) = ''_1''"
  by (simp_all add: planned_path_def choose_save_path_def example_extname_out slice_0_neg_def
      string_of_nat_small)

lemma example_planned_pic:
  "planned_path example_node example_config (Some ''/work/o/pic.png'') (Suc (Suc 0)) t 0 = ''/work/o/pic_0.png''"
  "planned_path example_node example_config (Some ''/work/o/pic.png'') (Suc (Suc 0)) t (Suc 0) = ''/work/o/pic_1.png''"
  by (simp_all add: planned_path_def choose_save_path_def example_extname_pic slice_0_neg_def
      string_of_nat_small)

lemma example_image_text:
  "image_text label p image_A = label @ p @ nl @ ''Revised prompt: a red kite''"
  "image_text label p image_B = label @ p"
  by (simp_all add: image_text_def image_A_def image_B_def)

lemma example_accepts:
  "accepts example_node ''_0''" "accepts example_node ''_1''"
  "accepts example_node ''/work/o/pic_0.png''" "accepts example_node ''/work/o/pic_1.png''"
  "accepts example_node ''/work/out.png''"
  by code_simp+

lemma example_clock_after: "clock_after (Some sp) t k = (if sp = [] then t + k else t)"
  by (simp add: clock_after_def)

lemma example_generated_out:
  "generated_path example_node example_config st (Some ''out'') (Suc (Suc 0)) 0 = ''_0''"
  "generated_path example_node example_config st (Some ''out'') (Suc (Suc 0)) (Suc 0) = ''_1''"
  by (simp_all add: generated_path_def example_planned_out)

lemma example_generated_pic:
  "generated_path example_node example_config st (Some ''/work/o/pic.png'') (Suc (Suc 0)) 0
     = ''/work/o/pic_0.png''"
  "generated_path example_node example_config st (Some ''/work/o/pic.png'') (Suc (Suc 0)) (Suc 0)
     = ''/work/o/pic_1.png''"
  by (simp_all add: generated_path_def example_planned_pic)

lemma less_2_cases: "k < Suc (Suc 0) \<Longrightarrow> k = 0 \<or> k = Suc 0"
  by auto

section \<open>Save paths of generated images\<close>

text \<open>
  Claim C6, at the input where the code departs from it. With the explicit save path
  \<open>out\<close>, which has no extension, and two images, \<open>ext\<close> is empty, so
  \<open>slice(0, -ext.length)\<close> is \<open>slice(0, -0)\<close>, the empty string: the images are written
  to \<open>_0\<close> and \<open>_1\<close>, not to \<open>out_0\<close> and \<open>out_1\<close>.
\<close>

theorem generate_image_extensionless_save_path:
  "posix_extname ''out'' = []
   \<and> writes (snd (generate_image_tool example_node example_config
                     (example_client 60000 100 example_textless_response example_images_two)
                     example_disk (example_generate_input (Some ''out''))))
       = [(''_0'', ''AAAA''), (''_1'', ''BBBB'')]"
proof -
  let ?client = "example_client 60000 100 example_textless_response example_images_two"
  let ?inp = "example_generate_input (Some ''out'')"
  have g: "generateImage ?client (gi_prompt ?inp) (gi_size ?inp) (gi_quality ?inp) (gi_n ?inp)
             = Inr (collect_images example_images_two)"
    by (rule example_generateImage)
  have ne: "images (collect_images example_images_two) \<noteq> []"
    by (simp add: example_images_two_collected)
  have e: "posix_extname ''out'' = []" by code_simp
  have sp: "gi_save_path ?inp = Some ''out''" by (simp add: example_generate_input_def)
  have w: "writes example_disk = []" by (simp add: example_disk_def)
  have acc: "\<forall>k < length (images (collect_images example_images_two)).
      accepts example_node
        (generated_path example_node example_config example_disk (gi_save_path ?inp)
           (length (images (collect_images example_images_two))) k)"
    unfolding sp
    by (auto simp: example_images_two_collected example_generated_out example_accepts
        dest!: less_2_cases)
  show ?thesis
    unfolding generate_image_tool_saved(2) [OF g ne acc] sp
    by (simp add: e example_images_two_collected upt_0_2 example_generated_out w image_A_def
        image_B_def)
qed



lemma example_edit_fields:
  "ei_prompt example_edit_input = ''make it blue''"
  "ei_image_path example_edit_input = ''/work/in.png''"
  "ei_mask_path example_edit_input = None"
  "ei_size example_edit_input = None"
  "ei_quality example_edit_input = None"
  "ei_save_path example_edit_input = Some ''/work/out.png''"
  by (simp_all add: example_edit_input_def)

lemma example_editImage_input:
  "editImage example_node (example_client 60000 100 r imgs) (ei_prompt example_edit_input)
     (path_resolve example_node [ei_image_path example_edit_input])
     (ei_mask_path example_edit_input) (ei_size example_edit_input)
     (ei_quality example_edit_input) = Inr (collect_images imgs)"
  by (simp only: example_edit_fields example_resolve example_editImage)

section \<open>Image results\<close>




lemma safety_wording:
  "js_includes no_image_message ''safety filter''"
  "js_includes no_edited_image_message ''safety filter''"
  by code_simp+

lemma example_generate_fields:
  "gi_prompt (example_generate_input sp) = ''a kite''"
  "gi_size (example_generate_input sp) = None"
  "gi_quality (example_generate_input sp) = None"
  "gi_n (example_generate_input sp) = Some 2"
  "gi_save_path (example_generate_input sp) = sp"
  by (simp_all add: example_generate_input_def)

lemma example_generate_tool_two:
  "generate_image_tool example_node example_config
     (example_client 60000 100 r example_images_two) example_disk
     (example_generate_input (Some ''/work/o/pic.png''))
   = (x, y) \<Longrightarrow>
   x = success [Image_part ''AAAA'' ''image/png'',
                Text_part (''Image 1 saved to: /work/o/pic_0.png'' @ nl
                           @ ''Revised prompt: a red kite''),
                Image_part ''BBBB'' ''image/png'',
                Text_part ''Image 2 saved to: /work/o/pic_1.png'']
   \<and> writes y = [(''/work/o/pic_0.png'', ''AAAA''), (''/work/o/pic_1.png'', ''BBBB'')]"
proof -
  assume xy: "generate_image_tool example_node example_config
     (example_client 60000 100 r example_images_two) example_disk
     (example_generate_input (Some ''/work/o/pic.png'')) = (x, y)"
  let ?client = "example_client 60000 100 r example_images_two"
  let ?inp = "example_generate_input (Some ''/work/o/pic.png'')"
  have g: "generateImage ?client (gi_prompt ?inp) (gi_size ?inp) (gi_quality ?inp) (gi_n ?inp)
             = Inr (collect_images example_images_two)"
    by (rule example_generateImage)
  have ne: "images (collect_images example_images_two) \<noteq> []"
    by (simp add: example_images_two_collected)
  have w: "writes example_disk = []" by (simp add: example_disk_def)
  have b: "b64 image_A = ''AAAA''" "b64 image_B = ''BBBB''"
    by (simp_all add: image_A_def image_B_def)
  have acc: "\<forall>k < length (images (collect_images example_images_two)).
      accepts example_node
        (generated_path example_node example_config example_disk (gi_save_path ?inp)
           (length (images (collect_images example_images_two))) k)"
    unfolding example_generate_fields
    by (auto simp: example_images_two_collected example_generated_pic example_accepts
        dest!: less_2_cases)
  have x: "x = fst (generate_image_tool example_node example_config ?client example_disk ?inp)"
    and y: "y = snd (generate_image_tool example_node example_config ?client example_disk ?inp)"
    using xy by simp_all
  have "x = success [Image_part ''AAAA'' ''image/png'',
                Text_part (''Image 1 saved to: /work/o/pic_0.png'' @ nl
                           @ ''Revised prompt: a red kite''),
                Image_part ''BBBB'' ''image/png'',
                Text_part ''Image 2 saved to: /work/o/pic_1.png'']"
    unfolding x generate_image_tool_saved(1) [OF g ne acc] example_generate_fields
    by (simp add: example_images_two_collected upt_0_2 example_generated_pic image_parts_def
        example_image_text string_of_nat_small b)
  moreover have "writes y = [(''/work/o/pic_0.png'', ''AAAA''), (''/work/o/pic_1.png'', ''BBBB'')]"
    unfolding y generate_image_tool_saved(2) [OF g ne acc] example_generate_fields
    by (simp add: example_images_two_collected upt_0_2 example_generated_pic w b)
  ultimately show ?thesis by blast
qed

section \<open>Zero images\<close>

text \<open>
  Claim C5. When the normalized result of \<open>generate_image\<close> or of \<open>edit_image\<close> has no
  image, the tool's reply is the error reply (\<open>isError\<close> true) whose one text part
  names the safety filter, and nothing is written; and a reply of either tool without
  the error flag never has empty content.
\<close>

theorem zero_images_is_an_error_reply:
  "(generateImage client (gi_prompt inp) (gi_size inp) (gi_quality inp) (gi_n inp) = Inr result
      \<and> images result = []
     \<longrightarrow> generate_image_tool nd config client st inp
           = (\<lparr>reply_content = [Text_part no_image_message], isError = True\<rparr>, st))
   \<and> (edit_ready nd st einp
      \<and> editImage nd client (ei_prompt einp) (path_resolve nd [ei_image_path einp])
            (ei_mask_path einp) (ei_size einp) (ei_quality einp) = Inr result
      \<and> images result = []
     \<longrightarrow> edit_image_tool nd config client st einp
           = (\<lparr>reply_content = [Text_part no_edited_image_message], isError = True\<rparr>, st))
   \<and> js_includes no_image_message ''safety filter''
   \<and> js_includes no_edited_image_message ''safety filter''
   \<and> (\<not> isError (fst (generate_image_tool nd config client st inp))
     \<longrightarrow> reply_content (fst (generate_image_tool nd config client st inp)) \<noteq> [])
   \<and> (\<not> isError (fst (edit_image_tool nd config client st einp))
     \<longrightarrow> reply_content (fst (edit_image_tool nd config client st einp)) \<noteq> [])"
proof (intro conjI impI)
  assume "generateImage client (gi_prompt inp) (gi_size inp) (gi_quality inp) (gi_n inp) = Inr result
      \<and> images result = []"
  then show "generate_image_tool nd config client st inp
           = (\<lparr>reply_content = [Text_part no_image_message], isError = True\<rparr>, st)"
    using generate_image_tool_zero [of client inp result nd config st] by (simp add: failure_def)
next
  assume "edit_ready nd st einp
      \<and> editImage nd client (ei_prompt einp) (path_resolve nd [ei_image_path einp])
            (ei_mask_path einp) (ei_size einp) (ei_quality einp) = Inr result
      \<and> images result = []"
  then show "edit_image_tool nd config client st einp
           = (\<lparr>reply_content = [Text_part no_edited_image_message], isError = True\<rparr>, st)"
    using edit_image_tool_zero [of nd st einp client result config] by (simp add: failure_def)
next
  show "js_includes no_image_message ''safety filter''" by (rule safety_wording)
  show "js_includes no_edited_image_message ''safety filter''" by (rule safety_wording)
next
  assume "\<not> isError (fst (generate_image_tool nd config client st inp))"
  then show "reply_content (fst (generate_image_tool nd config client st inp)) \<noteq> []"
    by (rule generate_image_tool_success_nonempty)
next
  assume "\<not> isError (fst (edit_image_tool nd config client st einp))"
  then show "reply_content (fst (edit_image_tool nd config client st einp)) \<noteq> []"
    by (rule edit_image_tool_success_nonempty)
qed

theorem zero_images_is_an_error_reply_witness:
  "generate_image_tool example_node example_config
        (example_client 60000 100 example_textless_response example_images_blocked)
        example_disk (example_generate_input None)
       = (\<lparr>reply_content = [Text_part no_image_message], isError = True\<rparr>, example_disk)
   \<and> edit_image_tool example_node example_config
        (example_client 60000 100 example_textless_response example_images_blocked)
        example_disk example_edit_input
       = (\<lparr>reply_content = [Text_part no_edited_image_message], isError = True\<rparr>, example_disk)
   \<and> js_includes no_image_message ''safety filter''
   \<and> reply_content (fst (generate_image_tool example_node example_config
        (example_client 60000 100 example_textless_response example_images_two) example_disk
        (example_generate_input (Some ''/work/o/pic.png'')))) \<noteq> []"
proof -
  let ?blocked = "example_client 60000 100 example_textless_response example_images_blocked"
  let ?two = "example_client 60000 100 example_textless_response example_images_two"
  note t = zero_images_is_an_error_reply
  have gb: "generateImage ?blocked (gi_prompt (example_generate_input None))
              (gi_size (example_generate_input None)) (gi_quality (example_generate_input None))
              (gi_n (example_generate_input None)) = Inr (collect_images example_images_blocked)"
    by (rule example_generateImage)
  from t [where client = ?blocked and inp = "example_generate_input None"
        and result = "collect_images example_images_blocked" and nd = example_node
        and config = example_config and st = example_disk]
    gb example_images_blocked_collected
  have g: "generate_image_tool example_node example_config ?blocked example_disk
             (example_generate_input None)
           = (\<lparr>reply_content = [Text_part no_image_message], isError = True\<rparr>, example_disk)"
    by blast
  from t [where client = ?blocked and einp = example_edit_input
        and result = "collect_images example_images_blocked" and nd = example_node
        and config = example_config and st = example_disk]
    example_edit_ready example_editImage_input example_images_blocked_collected
  have e: "edit_image_tool example_node example_config ?blocked example_disk example_edit_input
           = (\<lparr>reply_content = [Text_part no_edited_image_message], isError = True\<rparr>,
              example_disk)"
    by blast
  from t have s: "js_includes no_image_message ''safety filter''" by blast
  obtain x y where xy: "generate_image_tool example_node example_config ?two example_disk
      (example_generate_input (Some ''/work/o/pic.png'')) = (x, y)"
    by (cases "generate_image_tool example_node example_config ?two example_disk
      (example_generate_input (Some ''/work/o/pic.png''))")
  from example_generate_tool_two [OF xy] xy
  have ok: "\<not> isError (fst (generate_image_tool example_node example_config ?two example_disk
      (example_generate_input (Some ''/work/o/pic.png''))))"
    by (simp add: success_def)
  from t [where client = ?two and inp = "example_generate_input (Some ''/work/o/pic.png'')"
        and nd = example_node and config = example_config and st = example_disk] ok
  have n: "reply_content (fst (generate_image_tool example_node example_config ?two example_disk
      (example_generate_input (Some ''/work/o/pic.png'')))) \<noteq> []"
    by blast
  from g e s n show ?thesis by blast
qed



section \<open>Properties of the text extractor\<close>

text \<open>
  Claim C9. When no message item of the response has an \<open>output_text\<close> part, the text
  extractor returns the empty string; and when that response to the request of the
  \<open>ask\<close> tool settles no later than the timer of the base timeout fires, \<open>generate\<close>
  returns the empty text and the tool replies with one empty text part and no error
  flag.
\<close>

theorem extractText_empty_is_success:
  "((\<forall>item \<in> set (output_items r). \<forall>part \<in> set (message_parts item).
        part_type part \<noteq> ''output_text'')
     \<longrightarrow> extractText r = [])
   \<and> ((\<forall>item \<in> set (output_items r). \<forall>part \<in> set (message_parts item).
        part_type part \<noteq> ''output_text'')
      \<and> ask_prompt inp \<noteq> []
      \<and> outcome (responses_create client (ask_request config inp)) = Inr r
      \<and> latency (responses_create client (ask_request config inp))
          \<le> timer_delay (timeout client)
     \<longrightarrow> generate client (or_else (ask_model inp) (defaultModel config)) (ask_prompt inp) None
           = Inr []
         \<and> ask_tool config client inp = \<lparr>reply_content = [Text_part []], isError = False\<rparr>)"
proof (intro conjI impI)
  assume "\<forall>item \<in> set (output_items r). \<forall>part \<in> set (message_parts item).
        part_type part \<noteq> ''output_text''"
  then show "extractText r = []" by (rule extractText_no_output_text)
next
  assume h: "(\<forall>item \<in> set (output_items r). \<forall>part \<in> set (message_parts item).
        part_type part \<noteq> ''output_text'')
      \<and> ask_prompt inp \<noteq> []
      \<and> outcome (responses_create client (ask_request config inp)) = Inr r
      \<and> latency (responses_create client (ask_request config inp))
          \<le> timer_delay (timeout client)"
  then have e: "extractText r = []" using extractText_no_output_text by blast
  have g: "generate client (or_else (ask_model inp) (defaultModel config)) (ask_prompt inp) None
             = Inr (extractText r)"
    using h by (simp add: generate_def settle_in_time ask_request_def user_block_def)
  show "generate client (or_else (ask_model inp) (defaultModel config)) (ask_prompt inp) None
           = Inr []"
    using g e by simp
  have "ask_tool config client inp = success [Text_part (extractText r)]"
    by (simp add: ask_tool_def g)
  with e show "ask_tool config client inp = \<lparr>reply_content = [Text_part []], isError = False\<rparr>"
    by (simp add: success_def)
qed

theorem extractText_empty_is_success_witness:
  "extractText example_textless_response = []
   \<and> ask_tool example_config
         (example_client 60000 100 example_textless_response example_images_two)
         \<lparr>ask_prompt = ''2+2?'', ask_model = None, ask_file_ids = None\<rparr>
       = \<lparr>reply_content = [Text_part []], isError = False\<rparr>"
proof -
  let ?client = "example_client 60000 100 example_textless_response example_images_two"
  let ?inp = "\<lparr>ask_prompt = ''2+2?'', ask_model = None, ask_file_ids = None\<rparr>"
  have h1: "\<forall>item \<in> set (output_items example_textless_response).
              \<forall>part \<in> set (message_parts item). part_type part \<noteq> ''output_text''"
    by code_simp
  have h2: "outcome (responses_create ?client (ask_request example_config ?inp))
              = Inr example_textless_response"
    by (simp add: example_client_def)
  have h3: "latency (responses_create ?client (ask_request example_config ?inp))
              \<le> timer_delay (timeout ?client)"
    by (simp add: example_client_def)
  have h4: "ask_prompt ?inp \<noteq> []" by simp
  from extractText_empty_is_success [of example_textless_response ?inp ?client example_config]
    h1 h2 h3 h4
  show ?thesis by blast
qed

section \<open>Save paths, where the code agrees with the specification\<close>




lemma planned_path_single:
  "truthy save_path \<Longrightarrow> planned_path nd config save_path 1 t k = or_else save_path []"
  by (simp add: planned_path_def choose_save_path_def)

lemma planned_path_suffixed:
  assumes "truthy save_path" and "count \<noteq> 1"
    and "path_extname nd (or_else save_path []) = ext" and "ext \<noteq> []"
    and "or_else save_path [] = base @ ext"
  shows "planned_path nd config save_path count t k = base @ ''_'' @ string_of_nat k @ ext"
  using assms by (simp add: planned_path_def choose_save_path_def Let_def slice_0_neg_def)


lemma planned_path_auto:
  "\<not> truthy save_path \<Longrightarrow>
   planned_path nd config save_path count t k
     = path_resolve nd
         [outputDir config,
          ''generated-''
          @ map (\<lambda>c. if c = CHR '':'' \<or> c = CHR ''.'' then CHR ''-'' else c) (date_iso nd t)
          @ ''.png'']"
  by (simp add: planned_path_def choose_save_path_def getAutoSavePath_def Let_def)

section \<open>Persisting media\<close>





text \<open>
  Without a save path the file name is made of the time stamp only, so two images
  saved within the same millisecond get the same path and the second overwrites the
  first. And a write the operating system refuses makes the handler reply with the
  error flag: here the save path lies below a regular file.
\<close>

lemma example_resolve_auto:
  "resolve_segments ''/work'' [''/work/media'', ''generated-2026-01-02T03-04-05-678Z.png'']
     = ''/work/media/generated-2026-01-02T03-04-05-678Z.png''"
  by code_simp

lemma example_generated_auto:
  "generated_path example_node example_config st None (Suc (Suc 0)) k
     = ''/work/media/generated-2026-01-02T03-04-05-678Z.png''"
  unfolding generated_path_def planned_path_def choose_save_path_def getAutoSavePath_def
  by (simp add: example_node_def posix_node_def example_config_def Let_def example_resolve_auto)

lemma example_accepts_auto:
  "accepts example_node ''/work/media/generated-2026-01-02T03-04-05-678Z.png''"
  by code_simp

lemma example_auto_paths_collide:
  "writes (snd (generate_image_tool example_node example_config
          (example_client 60000 100 r example_images_two) example_disk
          (example_generate_input None)))
     = [(''/work/media/generated-2026-01-02T03-04-05-678Z.png'', ''AAAA''),
        (''/work/media/generated-2026-01-02T03-04-05-678Z.png'', ''BBBB'')]"
  "contents (snd (generate_image_tool example_node example_config
          (example_client 60000 100 r example_images_two) example_disk
          (example_generate_input None)))
     ''/work/media/generated-2026-01-02T03-04-05-678Z.png'' = Some ''BBBB''"
proof -
  let ?client = "example_client 60000 100 r example_images_two"
  let ?inp = "example_generate_input None"
  have g: "generateImage ?client (gi_prompt ?inp) (gi_size ?inp) (gi_quality ?inp) (gi_n ?inp)
             = Inr (collect_images example_images_two)"
    by (rule example_generateImage)
  have ne: "images (collect_images example_images_two) \<noteq> []"
    by (simp add: example_images_two_collected)
  have w: "writes example_disk = []" by (simp add: example_disk_def)
  have b: "b64 image_A = ''AAAA''" "b64 image_B = ''BBBB''"
    by (simp_all add: image_A_def image_B_def)
  have acc: "\<forall>k < length (images (collect_images example_images_two)).
      accepts example_node
        (generated_path example_node example_config example_disk (gi_save_path ?inp)
           (length (images (collect_images example_images_two))) k)"
    unfolding example_generate_fields
    by (simp add: example_images_two_collected example_generated_auto example_accepts_auto)
  show "writes (snd (generate_image_tool example_node example_config ?client example_disk ?inp))
     = [(''/work/media/generated-2026-01-02T03-04-05-678Z.png'', ''AAAA''),
        (''/work/media/generated-2026-01-02T03-04-05-678Z.png'', ''BBBB'')]"
    unfolding generate_image_tool_saved(2) [OF g ne acc] example_generate_fields
    by (simp add: example_images_two_collected upt_0_2 example_generated_auto w b)
  show "contents (snd (generate_image_tool example_node example_config ?client example_disk ?inp))
     ''/work/media/generated-2026-01-02T03-04-05-678Z.png'' = Some ''BBBB''"
    unfolding generate_image_tool_saved(3) [OF g ne acc] example_generate_fields
    by (simp add: example_images_two_collected upt_0_2 example_generated_auto b
        apply_writes_Cons apply_writes_Nil)
qed

lemma example_refused_path:
  "path_dirname example_node ''/work/in.png/out.png'' = ''/work/in.png''"
  "present example_disk ''/work/in.png''"
  "write_error example_node ''/work/in.png/out.png''
     = Some (fs_error ''ENOTDIR''
               (''not a directory, open '' @ quote @ ''/work/in.png/out.png'' @ quote))"
  by code_simp+

lemma example_refused_save:
  "edit_image_tool example_node example_config
     (example_client 60000 100 r example_images_two) example_disk
     (example_edit_input\<lparr>ei_save_path := Some ''/work/in.png/out.png''\<rparr>)
   = (\<lparr>reply_content =
         [Text_part (''ENOTDIR: not a directory, open '' @ quote @ ''/work/in.png/out.png''
                     @ quote)],
       isError = True\<rparr>, example_disk)"
proof -
  let ?inp = "example_edit_input\<lparr>ei_save_path := Some ''/work/in.png/out.png''\<rparr>"
  have r: "edit_ready example_node example_disk ?inp"
    using example_edit_ready by (simp add: edit_ready_def)
  have e: "editImage example_node (example_client 60000 100 r example_images_two)
             (ei_prompt ?inp) (path_resolve example_node [ei_image_path ?inp])
             (ei_mask_path ?inp) (ei_size ?inp) (ei_quality ?inp)
           = Inr (collect_images example_images_two)"
    using example_editImage_input [of r example_images_two] by simp
  have i: "images (collect_images example_images_two) = image_A # [image_B]"
    by (rule example_images_two_collected)
  have p: "edit_save_path example_node example_config example_disk (Some ''/work/in.png/out.png'')
             = ''/work/in.png/out.png''"
    by (simp add: edit_save_path_def)
  have s: "saveImage example_node example_disk d ''/work/in.png/out.png''
             = (Inl (fs_error ''ENOTDIR''
                       (''not a directory, open '' @ quote @ ''/work/in.png/out.png'' @ quote)),
                example_disk)" for d
    by (simp add: saveImage_def saveFile_def example_refused_path)
  show ?thesis
    unfolding edit_image_tool_ready [OF r] e
    by (simp add: i p s caught_def failure_def fs_error_def)
qed




section \<open>Startup configuration\<close>

text \<open>
  Claim C8, at the input where the code departs from it. With the credential set and
  \<open>OPENAI_TIMEOUT=abc\<close>, \<open>parseInt\<close> gives \<open>NaN\<close>, the test \<open>timeout <= 0\<close> is false,
  and the loader returns a configuration whose timeout is \<open>NaN\<close>: startup goes on to
  serve tools with a timeout that is not a positive integer.
\<close>

theorem loadConfig_accepts_unparsable_timeout:
  "parseInt ''abc'' = NaN
   \<and> loadConfig \<lparr>OPENAI_API_KEY = Some ''sk-test'', OPENAI_DEFAULT_MODEL = None,
                 OPENAI_OUTPUT_DIR = None, OPENAI_TIMEOUT = Some ''abc''\<rparr>
       = Inr \<lparr>apiKey = ''sk-test'', defaultModel = ''gpt-4.1'', cfg_timeout = NaN,
              outputDir = ''./generated-media''\<rparr>
   \<and> main_startup \<lparr>OPENAI_API_KEY = Some ''sk-test'', OPENAI_DEFAULT_MODEL = None,
                 OPENAI_OUTPUT_DIR = None, OPENAI_TIMEOUT = Some ''abc''\<rparr>
       = Serving \<lparr>apiKey = ''sk-test'', defaultModel = ''gpt-4.1'', cfg_timeout = NaN,
              outputDir = ''./generated-media''\<rparr>
   \<and> \<not> positive_integer NaN"
  by code_simp

section \<open>Configuration checks that do fire\<close>

text \<open>
  A missing or empty credential and a timeout that parses to a number not above zero
  are refused; a configuration that is returned has a credential and a timeout that is
  not a number at or below zero (which \<open>NaN\<close> is not).
\<close>

lemma loadConfig_checks:
  "(\<not> truthy (OPENAI_API_KEY env) \<longrightarrow> (\<exists>msg. loadConfig env = Inl msg))
   \<and> (\<forall>n. truthy (OPENAI_TIMEOUT env) \<and> parseInt (or_else (OPENAI_TIMEOUT env) []) = Num n
          \<and> n \<le> 0 \<longrightarrow> (\<exists>msg. loadConfig env = Inl msg))
   \<and> (\<forall>config. loadConfig env = Inr config
          \<longrightarrow> truthy (OPENAI_API_KEY env) \<and> \<not> le_zero (cfg_timeout config))"
  by (auto simp: loadConfig_def Let_def split: if_splits)

text \<open>
  \<open>parseInt\<close> at some inputs: trailing text is ignored, a no-break space counts as
  white space, and an integer above \<open>2^53\<close> is rounded to the nearest double.
\<close>

lemma skip_white_space_examples:
  "skip_white_space ''60000'' = ''60000''"
  "skip_white_space '' 42ms'' = ''42ms''"
  "skip_white_space ([CHR 0xC2, CHR 0xA0] @ ''-7'') = ''-7''"
  "skip_white_space ''9007199254740993'' = ''9007199254740993''"
  "skip_white_space [] = []"
  by (simp_all add: skip_white_space.simps white_space_def)

lemma bit_length_example: "bit_length 9007199254740993 = 54"
  by (simp add: bit_length.simps)

lemma parseInt_examples:
  "parseInt ''60000'' = Num 60000"
  "parseInt '' 42ms'' = Num 42"
  "parseInt ([CHR 0xC2, CHR 0xA0] @ ''-7'') = Num (- 7)"
  "parseInt ''9007199254740993'' = Num 9007199254740992"
  "parseInt [] = NaN"
  unfolding parseInt_def skip_white_space_examples
  by (simp_all add: is_digit_def digit_value_def digits_value_def round_double_def
      bit_length_example)

section \<open>File upload\<close>

lemma settle_race: "settle (race c ms) extract = raced_against ms c extract"
  by (simp add: settle_def race_def raced_against_def handleError_timeout_error)

lemma uploadViaInlineText_fileId:
  "uploadViaInlineText nd this model absolutePath fileName query = Inr res
   \<Longrightarrow> fu_fileId res = ''inline''"
  by (auto simp: uploadViaInlineText_def Let_def split: sum.splits)

lemma uploadViaFilesApi_fileId:
  "uploadViaFilesApi this model absolutePath fileName query = Inr res
   \<Longrightarrow> \<exists>file. outcome (files_create this absolutePath) = Inr file \<and> fu_fileId res = file_id file"
  by (auto simp: uploadViaFilesApi_def Let_def split: sum.splits if_splits)

lemma uploadViaInlineText_unread:
  "readFileSync nd absolutePath = Inl error \<Longrightarrow>
   uploadViaInlineText nd this model absolutePath fileName query = Inl error"
  by (simp add: uploadViaInlineText_def)

lemma uploadViaInlineText_read:
  "readFileSync nd absolutePath = Inr fileContent \<Longrightarrow>
   uploadViaInlineText nd this model absolutePath fileName query
     = raced_unclassified (js_times (timeout this) 3)
         (responses_create this
            \<lparr>rp_model = model,
             rp_input =
               [\<lparr>role = ''user'',
                 content = Text
                   (''File: '' @ fileName @ [CHR 0x0A, CHR 0x0A] @ ''```''
                    @ (if drop 1 (toLowerCase nd (path_extname nd absolutePath)) = [] then ''text''
                       else drop 1 (toLowerCase nd (path_extname nd absolutePath)))
                    @ [CHR 0x0A] @ fileContent @ [CHR 0x0A] @ ''```'' @ [CHR 0x0A, CHR 0x0A]
                    @ or_else query ''Analyze this file and provide a detailed summary.'')\<rparr>],
             rp_tools = None, rp_reasoning_effort = None\<rparr>)
         (\<lambda>r. \<lparr>fu_text = extractText r, fu_fileName = fileName, fu_fileId = ''inline''\<rparr>)"
  by (simp add: uploadViaInlineText_def Let_def raced_unclassified_def race_def user_block_def
      inline_prompt_def fence_tag_def nl_def split: sum.splits)

lemma uploadViaFilesApi_failed:
  "outcome (files_create this absolutePath) = Inl error \<Longrightarrow>
   uploadViaFilesApi this model absolutePath fileName query = Inl error"
  by (simp add: uploadViaFilesApi_def)

lemma uploadViaFilesApi_no_query:
  "outcome (files_create this absolutePath) = Inr file \<Longrightarrow> \<not> truthy query \<Longrightarrow>
   uploadViaFilesApi this model absolutePath fileName query
     = Inr \<lparr>fu_text = upload_confirmation fileName (file_id file), fu_fileName = fileName,
            fu_fileId = file_id file\<rparr>"
  by (simp add: uploadViaFilesApi_def upload_confirmation_def)

lemma uploadViaFilesApi_query:
  "outcome (files_create this absolutePath) = Inr file \<Longrightarrow> truthy query \<Longrightarrow>
   uploadViaFilesApi this model absolutePath fileName query
     = raced_unclassified (js_times (timeout this) 3)
         (responses_create this
            \<lparr>rp_model = model,
             rp_input =
               [\<lparr>role = ''user'',
                 content = Parts [Input_file (file_id file), Input_text (or_else query [])]\<rparr>],
             rp_tools = None, rp_reasoning_effort = None\<rparr>)
         (\<lambda>r. \<lparr>fu_text = extractText r, fu_fileName = fileName, fu_fileId = file_id file\<rparr>)"
  by (simp add: uploadViaFilesApi_def Let_def raced_unclassified_def race_def split: sum.splits)

text \<open>
  The example machine and the provider that echoes its request, evaluated.
\<close>

lemma example_notes:
  "path_resolve example_node [''/work/notes.ts''] = ''/work/notes.ts''"
  "path_basename example_node ''/work/notes.ts'' = ''notes.ts''"
  "path_extname example_node ''/work/notes.ts'' = ''.ts''"
  "readFileSync example_node ''/work/notes.ts'' = Inr ''export {}''"
  "toLowerCase example_node ''.ts'' = ''.ts''"
  "''.ts'' \<notin> set UPLOAD_SUPPORTED_EXTENSIONS"
  by code_simp+

lemma example_missing:
  "path_resolve example_node [''/work/missing.go''] = ''/work/missing.go''"
  "path_basename example_node ''/work/missing.go'' = ''missing.go''"
  "path_extname example_node ''/work/missing.go'' = ''.go''"
  "readFileSync example_node ''/work/missing.go'' = Inl (ENOENT ''/work/missing.go'')"
  "toLowerCase example_node ''.go'' = ''.go''"
  "''.go'' \<notin> set UPLOAD_SUPPORTED_EXTENSIONS"
  by code_simp+

lemma example_readme:
  "path_resolve example_node [''/work/readme.md''] = ''/work/readme.md''"
  "path_basename example_node ''/work/readme.md'' = ''readme.md''"
  "path_extname example_node ''/work/readme.md'' = ''.md''"
  "toLowerCase example_node ''.md'' = ''.md''"
  "''.md'' \<in> set UPLOAD_SUPPORTED_EXTENSIONS"
  by code_simp+

lemma example_search_text: "extractText example_search_response = ''Alpha. Beta.''"
  by code_simp

lemma example_fence_tags:
  "fence_tag example_node ''.TS'' = ''ts''" "fence_tag example_node [] = ''text''"
  by code_simp+

lemma echo_text:
  "extractText (echo_response \<lparr>rp_model = m, rp_input = [\<lparr>role = r, content = Text t\<rparr>],
                               rp_tools = tools, rp_reasoning_effort = e\<rparr>)
     = r @ '': '' @ t"
  by (simp add: extractText_def echo_response_def item_texts_def message_parts_def)

lemma echo_parts:
  "extractText (echo_response \<lparr>rp_model = m,
                               rp_input = [\<lparr>role = r,
                                            content = Parts [Input_file fid, Input_text t]\<rparr>],
                               rp_tools = tools, rp_reasoning_effort = e\<rparr>)
     = r @ '': [file '' @ fid @ '']'' @ t"
  by (simp add: extractText_def echo_response_def item_texts_def message_parts_def echo_part_def)

lemma example_echo_fields:
  "timeout (example_echo_client base lat) = Num base"
  "responses_create (example_echo_client base lat) params
     = \<lparr>latency = lat, outcome = Inr (echo_response params)\<rparr>"
  "files_create (example_echo_client base lat) p
     = \<lparr>latency = lat, outcome = Inr \<lparr>file_id = ''file-abc123''\<rparr>\<rparr>"
  by (simp_all add: example_echo_client_def)

text \<open>
  Claim C4. \<open>uploadFile\<close> chooses by the lower-cased extension of the resolved path.
  Outside the allow-list it takes the inline-text path: the file is read (a failed read
  is the result), and the request sent has one message, of role \<open>user\<close>, whose content
  is the text made of the file name, a fence tagged with the lower-cased extension
  without its dot (\<open>text\<close> when that is empty) around the content of the file, and the
  question; the request is raced against the timer of three times the base timeout, and
  every result returned has the file id \<open>inline\<close>. Inside the allow-list it takes the
  Files-API path: every result returned carries the id of the file object the provider
  created, with the confirmation text when there is no question, and with the answer to
  the raced question about that file otherwise.
\<close>

theorem upload_strategy_by_extension:
  "(toLowerCase nd (path_extname nd (path_resolve nd [filePath]))
      \<notin> set UPLOAD_SUPPORTED_EXTENSIONS
     \<longrightarrow> uploadFile nd this model filePath query
           = uploadViaInlineText nd this model (path_resolve nd [filePath])
               (path_basename nd (path_resolve nd [filePath])) query
         \<and> (\<forall>res. uploadFile nd this model filePath query = Inr res
                \<longrightarrow> fu_fileId res = ''inline'')
         \<and> (\<forall>error. readFileSync nd (path_resolve nd [filePath]) = Inl error
                \<longrightarrow> uploadFile nd this model filePath query = Inl error)
         \<and> (\<forall>fileContent. readFileSync nd (path_resolve nd [filePath]) = Inr fileContent
                \<longrightarrow> uploadFile nd this model filePath query
                    = raced_unclassified (js_times (timeout this) 3)
                        (responses_create this
                           \<lparr>rp_model = model,
                            rp_input =
                              [\<lparr>role = ''user'',
                                content = Text
                                  (''File: '' @ path_basename nd (path_resolve nd [filePath])
                                   @ [CHR 0x0A, CHR 0x0A] @ ''```''
                                   @ (if drop 1 (toLowerCase nd
                                                   (path_extname nd (path_resolve nd [filePath])))
                                         = []
                                      then ''text''
                                      else drop 1 (toLowerCase nd
                                                     (path_extname nd
                                                        (path_resolve nd [filePath]))))
                                   @ [CHR 0x0A] @ fileContent @ [CHR 0x0A] @ ''```''
                                   @ [CHR 0x0A, CHR 0x0A]
                                   @ or_else query
                                       ''Analyze this file and provide a detailed summary.'')\<rparr>],
                            rp_tools = None, rp_reasoning_effort = None\<rparr>)
                        (\<lambda>r. \<lparr>fu_text = extractText r,
                               fu_fileName = path_basename nd (path_resolve nd [filePath]),
                               fu_fileId = ''inline''\<rparr>)))
   \<and> (toLowerCase nd (path_extname nd (path_resolve nd [filePath]))
        \<in> set UPLOAD_SUPPORTED_EXTENSIONS
     \<longrightarrow> uploadFile nd this model filePath query
           = uploadViaFilesApi this model (path_resolve nd [filePath])
               (path_basename nd (path_resolve nd [filePath])) query
         \<and> (\<forall>res. uploadFile nd this model filePath query = Inr res
                \<longrightarrow> (\<exists>file. outcome (files_create this (path_resolve nd [filePath])) = Inr file
                        \<and> fu_fileId res = file_id file))
         \<and> (\<forall>file. outcome (files_create this (path_resolve nd [filePath])) = Inr file
                    \<and> \<not> truthy query
                \<longrightarrow> uploadFile nd this model filePath query
                    = Inr \<lparr>fu_text =
                             upload_confirmation (path_basename nd (path_resolve nd [filePath]))
                               (file_id file),
                           fu_fileName = path_basename nd (path_resolve nd [filePath]),
                           fu_fileId = file_id file\<rparr>)
         \<and> (\<forall>file. outcome (files_create this (path_resolve nd [filePath])) = Inr file
                    \<and> truthy query
                \<longrightarrow> uploadFile nd this model filePath query
                    = raced_unclassified (js_times (timeout this) 3)
                        (responses_create this
                           \<lparr>rp_model = model,
                            rp_input =
                              [\<lparr>role = ''user'',
                                content = Parts [Input_file (file_id file),
                                                 Input_text (or_else query [])]\<rparr>],
                            rp_tools = None, rp_reasoning_effort = None\<rparr>)
                        (\<lambda>r. \<lparr>fu_text = extractText r,
                               fu_fileName = path_basename nd (path_resolve nd [filePath]),
                               fu_fileId = file_id file\<rparr>)))
   \<and> (drop 1 (toLowerCase nd ext) \<noteq> [] \<longrightarrow> fence_tag nd ext = drop 1 (toLowerCase nd ext))
   \<and> (drop 1 (toLowerCase nd ext) = [] \<longrightarrow> fence_tag nd ext = ''text'')"
proof (intro conjI impI allI)
  assume out: "toLowerCase nd (path_extname nd (path_resolve nd [filePath]))
                 \<notin> set UPLOAD_SUPPORTED_EXTENSIONS"
  show u: "uploadFile nd this model filePath query
           = uploadViaInlineText nd this model (path_resolve nd [filePath])
               (path_basename nd (path_resolve nd [filePath])) query"
    using out by (simp add: uploadFile_def Let_def)
  {
    fix res assume "uploadFile nd this model filePath query = Inr res"
    then show "fu_fileId res = ''inline''"
      unfolding u by (rule uploadViaInlineText_fileId)
  }
  {
    fix error
    assume "readFileSync nd (path_resolve nd [filePath]) = Inl error"
    then show "uploadFile nd this model filePath query = Inl error"
      unfolding u by (rule uploadViaInlineText_unread)
  }
  {
    fix fileContent
    assume "readFileSync nd (path_resolve nd [filePath]) = Inr fileContent"
    then show "uploadFile nd this model filePath query
                    = raced_unclassified (js_times (timeout this) 3)
                        (responses_create this
                           \<lparr>rp_model = model,
                            rp_input =
                              [\<lparr>role = ''user'',
                                content = Text
                                  (''File: '' @ path_basename nd (path_resolve nd [filePath])
                                   @ [CHR 0x0A, CHR 0x0A] @ ''```''
                                   @ (if drop 1 (toLowerCase nd
                                                   (path_extname nd (path_resolve nd [filePath])))
                                         = []
                                      then ''text''
                                      else drop 1 (toLowerCase nd
                                                     (path_extname nd
                                                        (path_resolve nd [filePath]))))
                                   @ [CHR 0x0A] @ fileContent @ [CHR 0x0A] @ ''```''
                                   @ [CHR 0x0A, CHR 0x0A]
                                   @ or_else query
                                       ''Analyze this file and provide a detailed summary.'')\<rparr>],
                            rp_tools = None, rp_reasoning_effort = None\<rparr>)
                        (\<lambda>r. \<lparr>fu_text = extractText r,
                               fu_fileName = path_basename nd (path_resolve nd [filePath]),
                               fu_fileId = ''inline''\<rparr>)"
      unfolding u by (rule uploadViaInlineText_read)
  }
next
  assume inn: "toLowerCase nd (path_extname nd (path_resolve nd [filePath]))
                 \<in> set UPLOAD_SUPPORTED_EXTENSIONS"
  show u: "uploadFile nd this model filePath query
           = uploadViaFilesApi this model (path_resolve nd [filePath])
               (path_basename nd (path_resolve nd [filePath])) query"
    using inn by (simp add: uploadFile_def Let_def)
  {
    fix res assume "uploadFile nd this model filePath query = Inr res"
    then show "\<exists>file. outcome (files_create this (path_resolve nd [filePath])) = Inr file
                        \<and> fu_fileId res = file_id file"
      unfolding u by (rule uploadViaFilesApi_fileId)
  }
  {
    fix created
    assume "outcome (files_create this (path_resolve nd [filePath])) = Inr created
              \<and> \<not> truthy query"
    then show "uploadFile nd this model filePath query
                    = Inr \<lparr>fu_text =
                             upload_confirmation (path_basename nd (path_resolve nd [filePath]))
                               (file_id created),
                           fu_fileName = path_basename nd (path_resolve nd [filePath]),
                           fu_fileId = file_id created\<rparr>"
      unfolding u by (simp add: uploadViaFilesApi_no_query)
  }
  {
    fix created
    assume "outcome (files_create this (path_resolve nd [filePath])) = Inr created
              \<and> truthy query"
    then show "uploadFile nd this model filePath query
                    = raced_unclassified (js_times (timeout this) 3)
                        (responses_create this
                           \<lparr>rp_model = model,
                            rp_input =
                              [\<lparr>role = ''user'',
                                content = Parts [Input_file (file_id created),
                                                 Input_text (or_else query [])]\<rparr>],
                            rp_tools = None, rp_reasoning_effort = None\<rparr>)
                        (\<lambda>r. \<lparr>fu_text = extractText r,
                               fu_fileName = path_basename nd (path_resolve nd [filePath]),
                               fu_fileId = file_id created\<rparr>)"
      unfolding u by (simp add: uploadViaFilesApi_query)
  }
next
  assume "drop 1 (toLowerCase nd ext) \<noteq> []"
  then show "fence_tag nd ext = drop 1 (toLowerCase nd ext)" by (simp add: fence_tag_def)
next
  assume "drop 1 (toLowerCase nd ext) = []"
  then show "fence_tag nd ext = ''text''" by (simp add: fence_tag_def)
qed

theorem upload_strategy_by_extension_witness:
  "uploadFile example_node (example_echo_client 60000 100) ''gpt-4.1'' ''/work/notes.ts'' None
     = Inr \<lparr>fu_text = ''user: File: notes.ts'' @ [CHR 0x0A, CHR 0x0A] @ ''```ts'' @ [CHR 0x0A]
                       @ ''export {}'' @ [CHR 0x0A] @ ''```'' @ [CHR 0x0A, CHR 0x0A]
                       @ ''Analyze this file and provide a detailed summary.'',
            fu_fileName = ''notes.ts'', fu_fileId = ''inline''\<rparr>
   \<and> uploadFile example_node (example_echo_client 1000000000 100) ''gpt-4.1''
       ''/work/notes.ts'' None
     = Inl timeout_error
   \<and> uploadFile example_node (example_echo_client 60000 100) ''gpt-4.1'' ''/work/missing.go''
       None
     = Inl (ENOENT ''/work/missing.go'')
   \<and> uploadFile example_node (example_echo_client 60000 100) ''gpt-4.1'' ''/work/readme.md''
       None
     = Inr \<lparr>fu_text = upload_confirmation ''readme.md'' ''file-abc123'',
            fu_fileName = ''readme.md'', fu_fileId = ''file-abc123''\<rparr>
   \<and> uploadFile example_node (example_echo_client 60000 100) ''gpt-4.1'' ''/work/readme.md''
       (Some ''What is it?'')
     = Inr \<lparr>fu_text = ''user: [file file-abc123]What is it?'',
            fu_fileName = ''readme.md'', fu_fileId = ''file-abc123''\<rparr>
   \<and> fence_tag example_node ''.TS'' = ''ts''
   \<and> fence_tag example_node [] = ''text''"
proof -
  let ?c = "example_echo_client 60000 100"
  let ?slow = "example_echo_client 1000000000 100"
  have out: "toLowerCase example_node
               (path_extname example_node (path_resolve example_node [''/work/notes.ts'']))
             \<notin> set UPLOAD_SUPPORTED_EXTENSIONS"
    by (simp add: example_notes)
  have rd: "readFileSync example_node (path_resolve example_node [''/work/notes.ts''])
              = Inr ''export {}''"
    by (simp add: example_notes)
  have out': "toLowerCase example_node
               (path_extname example_node (path_resolve example_node [''/work/missing.go'']))
             \<notin> set UPLOAD_SUPPORTED_EXTENSIONS"
    by (simp add: example_missing)
  have rd': "readFileSync example_node (path_resolve example_node [''/work/missing.go''])
              = Inl (ENOENT ''/work/missing.go'')"
    by (simp add: example_missing)
  have inn: "toLowerCase example_node
               (path_extname example_node (path_resolve example_node [''/work/readme.md'']))
             \<in> set UPLOAD_SUPPORTED_EXTENSIONS"
    by (simp add: example_readme)
  have fc: "outcome (files_create ?c (path_resolve example_node [''/work/readme.md'']))
              = Inr \<lparr>file_id = ''file-abc123''\<rparr>"
    by (simp add: example_echo_fields)
  have nq: "\<not> truthy (None :: string option)" by simp
  have q: "truthy (Some ''What is it?'')" by simp
  note t1 = upload_strategy_by_extension
    [where nd = example_node and filePath = "''/work/notes.ts''" and this = ?c
       and model = "''gpt-4.1''" and query = None and ext = "''.TS''"]
  note t2 = upload_strategy_by_extension
    [where nd = example_node and filePath = "''/work/notes.ts''" and this = ?slow
       and model = "''gpt-4.1''" and query = None and ext = "[]"]
  note t3 = upload_strategy_by_extension
    [where nd = example_node and filePath = "''/work/missing.go''" and this = ?c
       and model = "''gpt-4.1''" and query = None]
  note t4 = upload_strategy_by_extension
    [where nd = example_node and filePath = "''/work/readme.md''" and this = ?c
       and model = "''gpt-4.1''" and query = None]
  note t5 = upload_strategy_by_extension
    [where nd = example_node and filePath = "''/work/readme.md''" and this = ?c
       and model = "''gpt-4.1''" and query = "Some ''What is it?''"]
  note a0 = t1 [THEN conjunct1, THEN mp, OF out, THEN conjunct2, THEN conjunct2,
                THEN conjunct2, THEN spec, THEN mp, OF rd]
  have a: "uploadFile example_node ?c ''gpt-4.1'' ''/work/notes.ts'' None
     = Inr \<lparr>fu_text = ''user: File: notes.ts'' @ [CHR 0x0A, CHR 0x0A] @ ''```ts'' @ [CHR 0x0A]
                       @ ''export {}'' @ [CHR 0x0A] @ ''```'' @ [CHR 0x0A, CHR 0x0A]
                       @ ''Analyze this file and provide a detailed summary.'',
            fu_fileName = ''notes.ts'', fu_fileId = ''inline''\<rparr>"
    unfolding a0 example_notes raced_unclassified_def example_echo_fields
    by (simp add: echo_text)
  note b0 = t2 [THEN conjunct1, THEN mp, OF out, THEN conjunct2, THEN conjunct2,
                THEN conjunct2, THEN spec, THEN mp, OF rd]
  have b: "uploadFile example_node ?slow ''gpt-4.1'' ''/work/notes.ts'' None = Inl timeout_error"
    unfolding b0 raced_unclassified_def example_echo_fields
    by simp
  note c = t3 [THEN conjunct1, THEN mp, OF out', THEN conjunct2, THEN conjunct2,
               THEN conjunct1, THEN spec, THEN mp, OF rd']
  note d0 = t4 [THEN conjunct2, THEN conjunct1, THEN mp, OF inn, THEN conjunct2,
                THEN conjunct2, THEN conjunct1, THEN spec, THEN mp, OF conjI [OF fc nq]]
  have d: "uploadFile example_node ?c ''gpt-4.1'' ''/work/readme.md'' None
     = Inr \<lparr>fu_text = upload_confirmation ''readme.md'' ''file-abc123'',
            fu_fileName = ''readme.md'', fu_fileId = ''file-abc123''\<rparr>"
    unfolding d0 example_readme by simp
  note e0 = t5 [THEN conjunct2, THEN conjunct1, THEN mp, OF inn, THEN conjunct2,
                THEN conjunct2, THEN conjunct2, THEN spec, THEN mp, OF conjI [OF fc q]]
  have e: "uploadFile example_node ?c ''gpt-4.1'' ''/work/readme.md'' (Some ''What is it?'')
     = Inr \<lparr>fu_text = ''user: [file file-abc123]What is it?'',
            fu_fileName = ''readme.md'', fu_fileId = ''file-abc123''\<rparr>"
    unfolding e0 example_readme raced_unclassified_def example_echo_fields
    by (simp add: echo_parts)
  from t1 have f: "fence_tag example_node ''.TS'' = ''ts''" by (simp add: example_fence_tags)
  from t2 have g: "fence_tag example_node [] = ''text''" by (simp add: example_fence_tags)
  from a b c d e f g show ?thesis by blast
qed

section \<open>Deadlines\<close>

text \<open>
  Every raced call is raced against the timer of the base timeout times the multiplier
  of its class: 1 for plain generation, 2 for vision analysis and audio synthesis, 3
  for web search, code execution, URL fetch, transcription and image generation, 5 for
  extended reasoning (and 3 for the question that follows a file upload, see
  \<open>uploadViaInlineText_read\<close> and \<open>uploadViaFilesApi_query\<close>). A failure whose message
  is the timeout sentinel gets the Timeout template whatever its status.
\<close>

lemma raced_calls_use_the_class_multiplier:
  "(\<exists>params. generate this model prompt systemPrompt
       = raced_against (timeout this) (responses_create this params) extractText)
   \<and> (\<exists>params. analyzeImage this model prompt imageBase64 mimeType
       = raced_against (js_times (timeout this) 2) (responses_create this params) extractText)
   \<and> (\<exists>params. textToSpeech this text voiceModel voice speed format
       = raced_against (js_times (timeout this) 2) (speech_create this params) (\<lambda>audio. audio))
   \<and> (\<exists>params. searchWeb this model query systemPrompt
       = raced_against (js_times (timeout this) 3) (responses_create this params)
           extractSearchResponse)
   \<and> (\<exists>params. executeCode this model prompt systemPrompt
       = raced_against (js_times (timeout this) 3) (responses_create this params)
           extractCodeExecutionResponse)
   \<and> (\<exists>params. fetchUrl this model prompt urls systemPrompt
       = raced_against (js_times (timeout this) 3) (responses_create this params)
           extractUrlFetchResponse)
   \<and> (\<exists>params. transcribe nd this audioPath voiceModel language tprompt
       = raced_against (js_times (timeout this) 3) (transcriptions_create this params)
           transcription_text)
   \<and> (\<exists>params. generateWithReasoning this model prompt effort
       = raced_against (js_times (timeout this) 5) (responses_create this params)
           extractReasoningResponse)
   \<and> (\<exists>params. generateImage this prompt sz quality n
       = raced_against (js_times (timeout this) 3) (images_generate this params) collect_images)"
  by (intro conjI)
    (auto simp: generate_def analyzeImage_def textToSpeech_def searchWeb_def executeCode_def
      fetchUrl_def transcribe_def generateWithReasoning_def generateImage_def settle_race Let_def)

lemma sentinel_is_timeout:
  "err_message e = Some ''Request timeout''
   \<Longrightarrow> handleError e = ''OpenAI API request timed out. Please try again.''"
  by (simp add: handleError_def)

text \<open>
  The delay of the timer: a product of the base timeout outside the range of
  \<open>setTimeout\<close> makes the timer fire after one millisecond, and the call wins a tie.
\<close>

lemma timer_delay_examples:
  "timer_delay (Num 60000) = 60000"
  "timer_delay (js_times (Num 60000) 3) = 180000"
  "timer_delay (js_times (Num 1000000000) 3) = 1"
  "timer_delay (Num 2147483647) = 2147483647"
  "timer_delay (Num 2147483648) = 1"
  "timer_delay NaN = 1"
  by simp_all

lemma race_tie: "race \<lparr>latency = 60000, outcome = Inr r\<rparr> (Num 60000) = Inr r"
  by (simp add: race_def)

text \<open>
  Claim C2, at the input where the code departs from it. The Files-API path of
  \<open>uploadFile\<close> awaits \<open>files.create\<close> without a race, so this upstream call has no
  deadline: with a base timeout of 60000 ms and a provider that takes 1000000000 ms,
  the upload of an allow-listed file without a question still succeeds, while the
  inline-text upload by the same client is rejected with the timeout error at three
  times the base timeout.
\<close>

theorem files_api_upload_is_not_raced:
  "timeout (example_client 60000 1000000000 example_search_response example_images_two)
     = Num 60000
   \<and> latency (files_create
                 (example_client 60000 1000000000 example_search_response example_images_two)
                 ''/work/readme.md'') = 1000000000
   \<and> uploadFile example_node
        (example_client 60000 1000000000 example_search_response example_images_two)
        ''gpt-4.1'' ''/work/readme.md'' None
       = Inr \<lparr>fu_text = upload_confirmation ''readme.md'' ''file-abc123'',
              fu_fileName = ''readme.md'', fu_fileId = ''file-abc123''\<rparr>
   \<and> uploadFile example_node
        (example_client 60000 1000000000 example_search_response example_images_two)
        ''gpt-4.1'' ''/work/notes.ts'' None
       = Inl timeout_error"
proof -
  let ?client = "example_client 60000 1000000000 example_search_response example_images_two"
  have f: "outcome (files_create ?client ''/work/readme.md'') = Inr \<lparr>file_id = ''file-abc123''\<rparr>"
    by (simp add: example_client_def)
  have a: "uploadFile example_node ?client ''gpt-4.1'' ''/work/readme.md'' None
       = Inr \<lparr>fu_text = upload_confirmation ''readme.md'' ''file-abc123'',
              fu_fileName = ''readme.md'', fu_fileId = ''file-abc123''\<rparr>"
    using uploadViaFilesApi_no_query [OF f, of None "''gpt-4.1''" "''readme.md''"]
    by (simp add: uploadFile_def Let_def example_readme)
  have b: "uploadFile example_node ?client ''gpt-4.1'' ''/work/notes.ts'' None
       = Inl timeout_error"
    by (simp add: uploadFile_def Let_def example_notes uploadViaInlineText_read
        raced_unclassified_def example_client_def)
  show ?thesis using a b by (simp add: example_client_def)
qed

end
